theory Spec2Isabelle
  imports Complex_Main "HOL-Library.Word" "HOL-Library.Multiset"
begin

section \<open>Admin token verification (src/lib/auth.ts, admin submit-update route)\<close>

text \<open>
  JavaScript strings are modelled as \<open>string\<close>: lists of characters with code points
  below 256. \<open>Buffer.from(s, 'utf8')\<close> encodes each character below 128 as one byte and
  each character from 128 to 255 as two bytes.
\<close>

type_synonym buffer = "8 word list"

definition utf8_char :: "char \<Rightarrow> buffer" where
  "utf8_char c =
     (let n = (of_char c :: nat) in
      if n < 128 then [of_nat n]
      else [of_nat (192 + n div 64), of_nat (128 + n mod 64)])"

definition Buffer_from :: "string \<Rightarrow> buffer" where
  "Buffer_from s = concat (map utf8_char s)"

text \<open>
  \<open>crypto.timingSafeEqual\<close> throws a RangeError when the two buffers differ in length
  (\<open>None\<close>); otherwise it tells whether all bytes agree.
\<close>

definition timingSafeEqual :: "buffer \<Rightarrow> buffer \<Rightarrow> bool option" where
  "timingSafeEqual a b = (if length a \<noteq> length b then None else Some (a = b))"

text \<open>\<open>timingSafeCompare\<close>: the \<open>catch\<close> branch returns false.\<close>

definition timingSafeCompare :: "string \<Rightarrow> string \<Rightarrow> bool" where
  "timingSafeCompare a b =
     (let bufferA = Buffer_from a; bufferB = Buffer_from b in
      if length bufferA \<noteq> length bufferB then
        (case timingSafeEqual bufferA bufferA of None \<Rightarrow> False | Some _ \<Rightarrow> False)
      else
        (case timingSafeEqual bufferA bufferB of None \<Rightarrow> False | Some r \<Rightarrow> r))"

text \<open>
  A value of type \<open>string | null | undefined\<close> is a \<open>string option\<close>. It is falsy when
  it is null, undefined or the empty string; \<open>a || b\<close> is \<open>b\<close> exactly when \<open>a\<close> is
  falsy.
\<close>

definition falsy :: "string option \<Rightarrow> bool" where
  "falsy v = (case v of None \<Rightarrow> True | Some s \<Rightarrow> s = [])"

definition js_or :: "string option \<Rightarrow> string option \<Rightarrow> string option" where
  "js_or a b = (if falsy a then b else a)"

text \<open>
  \<open>.replace(/^Bearer\s+/i, '')\<close>: when the value starts with the six letters of
  "bearer" in any case followed by at least one white-space character, that prefix and
  the whole run of white space are removed; any other value is unchanged.
\<close>

definition ascii_lower :: "char \<Rightarrow> char" where
  "ascii_lower c =
     (let n = (of_char c :: nat) in if 65 \<le> n \<and> n \<le> 90 then char_of (n + 32) else c)"

definition is_space :: "char \<Rightarrow> bool" where
  "is_space c = ((of_char c :: nat) \<in> {9, 10, 11, 12, 13, 32, 160})"

definition replace_Bearer :: "string \<Rightarrow> string" where
  "replace_Bearer s =
     (if map ascii_lower (take 6 s) = ''bearer'' then
        (case drop 6 s of
           [] \<Rightarrow> s
         | c # cs \<Rightarrow> if is_space c then dropWhile is_space cs else s)
      else s)"

text \<open>
  The request headers are a map from the header names the code asks for to their
  values; \<open>headers.get\<close> gives null for a header that is not there.
\<close>

type_synonym headers = "string \<rightharpoonup> string"

definition requestToken :: "headers \<Rightarrow> string option" where
  "requestToken hs =
     js_or (hs ''X-Admin-Token'')
       (js_or (map_option replace_Bearer (hs ''Authorization'')) None)"

text \<open>
  \<open>verifyAdminToken\<close>; the first argument is \<open>process.env.ADMIN_API_TOKEN\<close>.
\<close>

definition verifyAdminToken :: "string option \<Rightarrow> headers \<Rightarrow> bool" where
  "verifyAdminToken adminToken hs =
     (if falsy adminToken then False
      else if falsy (requestToken hs) then False
      else timingSafeCompare (the (requestToken hs)) (the adminToken))"

text \<open>
  \<open>verifyFormToken\<close> of the admin submit-update route: the same comparison, written
  out again there, on the form field \<open>adminPassword\<close>.
\<close>

definition verifyFormToken :: "string option \<Rightarrow> string option \<Rightarrow> bool" where
  "verifyFormToken expectedToken token =
     (if falsy token then False
      else if falsy expectedToken then False
      else
        (let tokenBuffer = Buffer_from (the token);
             expectedBuffer = Buffer_from (the expectedToken) in
         if length tokenBuffer \<noteq> length expectedBuffer then
           (case timingSafeEqual tokenBuffer tokenBuffer of None \<Rightarrow> False | Some _ \<Rightarrow> False)
         else
           (case timingSafeEqual tokenBuffer expectedBuffer of
              None \<Rightarrow> False
            | Some r \<Rightarrow> r)))"

section \<open>The store: tables \<open>sponsorships\<close> and \<open>updates\<close> (Supabase schema)\<close>

text \<open>
  A timestamp is an instant, in milliseconds since the epoch: a \<open>TIMESTAMPTZ\<close> column
  and the text of \<open>new Date().toISOString()\<close> are two writings of it. A \<open>DATE\<close> is a
  day number; \<open>toISOString().split('T')[0]\<close> is the UTC day of the instant.
\<close>

type_synonym timestamp = int
type_synonym date = int

definition date_of :: "timestamp \<Rightarrow> date" where
  "date_of t = t div 86400000"

datatype auth_status = Auth_Active | Auth_Inactive | Auth_Suspended

datatype sponsorship_status =
  Status_Active | Status_Paused | Status_Ended | Status_Awaiting_Sponsor

datatype update_status = Pending_Review | Published | Rejected

text \<open>
  Modelled from the spec: the constants module (\<open>AUTH_STATUS\<close>, \<open>UPDATE_STATUS\<close>,
  \<open>SPONSORSHIP_STATUS\<close>) is not among the sources; the values are the ones of the
  specification's data model, which the row types and the schema's CHECK lists spell
  'Active', 'Pending Review', 'Published', 'Rejected', 'Awaiting Sponsor'.
\<close>

definition AUTH_STATUS_ACTIVE :: auth_status where
  "AUTH_STATUS_ACTIVE = Auth_Active"

definition UPDATE_STATUS_PENDING_REVIEW :: update_status where
  "UPDATE_STATUS_PENDING_REVIEW = Pending_Review"

definition UPDATE_STATUS_PUBLISHED :: update_status where
  "UPDATE_STATUS_PUBLISHED = Published"

definition UPDATE_STATUS_REJECTED :: update_status where
  "UPDATE_STATUS_REJECTED = Rejected"

definition SPONSORSHIP_STATUS_ACTIVE :: sponsorship_status where
  "SPONSORSHIP_STATUS_ACTIVE = Status_Active"

record photo =
  ph_id :: string
  ph_url :: string
  ph_filename :: string
  ph_size :: nat
  ph_type :: string
  ph_width :: "nat option"
  ph_height :: "nat option"

text \<open>
  \<open>SupabaseSponsorshipRow\<close>, as a row of the table; the fields carry the prefix \<open>sr_\<close>.
  The column \<open>updated_at\<close> of the schema is not named by the row type of the code; a
  row of the table carries it all the same, and \<open>select('*')\<close> returns it.
\<close>

record SupabaseSponsorshipRow =
  sr_id :: string
  sr_sponsor_code :: string
  sr_sponsor_email :: string
  sr_sponsor_name :: "string option"
  sr_child_id :: string
  sr_child_display_name :: string
  sr_child_photo :: "photo list option"
  sr_child_age :: "string option"
  sr_child_location :: "string option"
  sr_sponsorship_start_date :: "date option"
  sr_auth_status :: auth_status
  sr_status :: "sponsorship_status option"
  sr_visible_to_sponsor :: bool
  sr_last_request_at :: "timestamp option"
  sr_next_request_eligible_at :: "timestamp option"
  sr_created_at :: timestamp
  sr_updated_at :: timestamp

text \<open>\<open>SupabaseUpdateRow\<close>, likewise; the fields carry the prefix \<open>ur_\<close>.\<close>

record SupabaseUpdateRow =
  ur_id :: string
  ur_child_id :: string
  ur_sponsor_code :: "string option"
  ur_update_type :: string
  ur_title :: string
  ur_content :: string
  ur_photos :: "photo list option"
  ur_status :: update_status
  ur_visible_to_sponsor :: bool
  ur_requested_by_sponsor :: "bool option"
  ur_requested_at :: "timestamp option"
  ur_published_at :: "timestamp option"
  ur_submitted_by :: "string option"
  ur_submitted_at :: "timestamp option"
  ur_created_at :: timestamp
  ur_updated_at :: timestamp

text \<open>
  The Airtable-compatible records the database layer hands to its callers
  (prefixes \<open>sf_\<close>, \<open>uf_\<close> for the fields, \<open>asr_\<close>, \<open>aur_\<close> for the records).
\<close>

record SponsorshipFields =
  sf_SponsorCode :: string
  sf_SponsorEmail :: string
  sf_SponsorName :: "string option"
  sf_ChildID :: string
  sf_ChildDisplayName :: string
  sf_ChildPhoto :: "photo list option"
  sf_ChildAge :: "string option"
  sf_ChildLocation :: "string option"
  sf_SponsorshipStartDate :: "date option"
  sf_AuthStatus :: auth_status
  sf_Status :: "sponsorship_status option"
  sf_VisibleToSponsor :: bool
  sf_LastRequestAt :: "timestamp option"
  sf_NextRequestEligibleAt :: "timestamp option"

record AirtableSponsorshipRecord =
  asr_id :: string
  asr_fields :: SponsorshipFields
  asr_createdTime :: timestamp

record UpdateFields =
  uf_ChildID :: string
  uf_SponsorCode :: "string option"
  uf_UpdateType :: string
  uf_Title :: string
  uf_Content :: string
  uf_Photos :: "photo list option"
  uf_Status :: update_status
  uf_VisibleToSponsor :: bool
  uf_RequestedBySponsor :: "bool option"
  uf_RequestedAt :: "timestamp option"
  uf_PublishedAt :: "timestamp option"
  uf_SubmittedBy :: "string option"
  uf_SubmittedAt :: "timestamp option"

record AirtableUpdateRecord =
  aur_id :: string
  aur_fields :: UpdateFields
  aur_createdTime :: timestamp

text \<open>\<open>x || undefined\<close> on a nullable text and on a nullable boolean.\<close>

definition or_undefined :: "string option \<Rightarrow> string option" where
  "or_undefined v = (if falsy v then None else v)"

definition bool_or_undefined :: "bool option \<Rightarrow> bool option" where
  "bool_or_undefined v = (case v of Some True \<Rightarrow> Some True | _ \<Rightarrow> None)"

definition toAirtableSponsorshipRecord :: "SupabaseSponsorshipRow \<Rightarrow> AirtableSponsorshipRecord" where
  "toAirtableSponsorshipRecord row =
     \<lparr> asr_id = sr_id row,
       asr_fields =
         \<lparr> sf_SponsorCode = sr_sponsor_code row,
           sf_SponsorEmail = sr_sponsor_email row,
           sf_SponsorName = or_undefined (sr_sponsor_name row),
           sf_ChildID = sr_child_id row,
           sf_ChildDisplayName = sr_child_display_name row,
           sf_ChildPhoto = sr_child_photo row,
           sf_ChildAge = or_undefined (sr_child_age row),
           sf_ChildLocation = or_undefined (sr_child_location row),
           sf_SponsorshipStartDate = sr_sponsorship_start_date row,
           sf_AuthStatus = sr_auth_status row,
           sf_Status = sr_status row,
           sf_VisibleToSponsor = sr_visible_to_sponsor row,
           sf_LastRequestAt = sr_last_request_at row,
           sf_NextRequestEligibleAt = sr_next_request_eligible_at row \<rparr>,
       asr_createdTime = sr_created_at row \<rparr>"

definition toAirtableUpdateRecord :: "SupabaseUpdateRow \<Rightarrow> AirtableUpdateRecord" where
  "toAirtableUpdateRecord row =
     \<lparr> aur_id = ur_id row,
       aur_fields =
         \<lparr> uf_ChildID = ur_child_id row,
           uf_SponsorCode = or_undefined (ur_sponsor_code row),
           uf_UpdateType = ur_update_type row,
           uf_Title = ur_title row,
           uf_Content = ur_content row,
           uf_Photos = ur_photos row,
           uf_Status = ur_status row,
           uf_VisibleToSponsor = ur_visible_to_sponsor row,
           uf_RequestedBySponsor = bool_or_undefined (ur_requested_by_sponsor row),
           uf_RequestedAt = ur_requested_at row,
           uf_PublishedAt = ur_published_at row,
           uf_SubmittedBy = or_undefined (ur_submitted_by row),
           uf_SubmittedAt = ur_submitted_at row \<rparr>,
       aur_createdTime = ur_created_at row \<rparr>"

subsection \<open>The store client\<close>

text \<open>
  A reply of the store client is \<open>{ data, error }\<close>. The backend either answers the
  query (\<open>Healthy\<close>) or answers every query with an error object (\<open>Failing\<close>: a
  failed query, and also a connection that is refused or times out, which the client
  resolves to an error object). \<open>Unconfigured\<close> is the case in which no client can be
  built: \<open>getSupabaseClient\<close> throws for want of its configuration. There is then no
  reply (\<open>None\<close>), and the \<open>catch\<close> of each function turns the Error, which is not a
  \<open>DatabaseError\<close>, into the \<open>DatabaseError\<close> "Failed to connect to database".
\<close>

record pg_error =
  pg_code :: string
  pg_message :: string

record 'a response =
  data :: "'a option"
  error :: "pg_error option"

datatype backend = Healthy | Failing pg_error | Unconfigured

record store =
  sponsorships :: "SupabaseSponsorshipRow list"
  updates :: "SupabaseUpdateRow list"
  backend :: backend

datatype db_error = DatabaseError string

definition answer :: "'a \<Rightarrow> 'a response" where
  "answer x = \<lparr> data = Some x, error = None \<rparr>"

definition refuse :: "pg_error \<Rightarrow> 'a response" where
  "refuse e = \<lparr> data = None, error = Some e \<rparr>"

text \<open>
  \<open>.single()\<close>: exactly one row is the data; none or several is the error PGRST116.
  \<open>.limit(1)\<close> is \<open>take 1\<close>.
\<close>

definition PGRST116 :: pg_error where
  "PGRST116 = \<lparr> pg_code = ''PGRST116'', pg_message = ''JSON object requested, multiple (or no) rows returned'' \<rparr>"

definition single :: "'a list \<Rightarrow> 'a response" where
  "single rows = (case rows of [r] \<Rightarrow> answer r | _ \<Rightarrow> refuse PGRST116)"

definition reply :: "store \<Rightarrow> 'a response \<Rightarrow> 'a response option" where
  "reply st r =
     (case backend st of
        Healthy \<Rightarrow> Some r
      | Failing e \<Rightarrow> Some (refuse e)
      | Unconfigured \<Rightarrow> None)"

text \<open>
  Constraints of the schema: \<open>id UUID PRIMARY KEY\<close> on both tables,
  \<open>sponsor_code TEXT UNIQUE NOT NULL\<close>, and the CHECK list of \<open>update_type\<close>. A write
  that would break one is refused with the error of that constraint and changes nothing.
\<close>

definition unique_violation :: pg_error where
  "unique_violation = \<lparr> pg_code = ''23505'', pg_message = ''duplicate key value violates unique constraint'' \<rparr>"

definition check_violation :: pg_error where
  "check_violation = \<lparr> pg_code = ''23514'', pg_message = ''new row violates check constraint'' \<rparr>"

definition update_types :: "string list" where
  "update_types =
     [''Progress Report'', ''Photo Update'', ''Special Note'', ''Holiday Greeting'', ''Milestone'']"

text \<open>
  What the store itself fills in on an insert: the generated id and \<open>NOW()\<close>, the
  default of both \<open>created_at\<close> and \<open>updated_at\<close>.
\<close>

record generated =
  gen_id :: string
  gen_now :: timestamp

definition insert_update :: "store \<Rightarrow> SupabaseUpdateRow \<Rightarrow> SupabaseUpdateRow response option \<times> store" where
  "insert_update st row =
     (case backend st of
        Healthy \<Rightarrow>
          if ur_id row \<in> set (map ur_id (updates st)) then (Some (refuse unique_violation), st)
          else if ur_update_type row \<notin> set update_types then (Some (refuse check_violation), st)
          else (Some (answer row), st\<lparr>updates := updates st @ [row]\<rparr>)
      | Failing e \<Rightarrow> (Some (refuse e), st)
      | Unconfigured \<Rightarrow> (None, st))"

definition insert_sponsorship ::
  "store \<Rightarrow> SupabaseSponsorshipRow \<Rightarrow> SupabaseSponsorshipRow response option \<times> store" where
  "insert_sponsorship st row =
     (case backend st of
        Healthy \<Rightarrow>
          if sr_id row \<in> set (map sr_id (sponsorships st)) then (Some (refuse unique_violation), st)
          else if sr_sponsor_code row \<in> set (map sr_sponsor_code (sponsorships st))
            then (Some (refuse unique_violation), st)
          else (Some (answer row), st\<lparr>sponsorships := sponsorships st @ [row]\<rparr>)
      | Failing e \<Rightarrow> (Some (refuse e), st)
      | Unconfigured \<Rightarrow> (None, st))"

text \<open>
  \<open>.update(change).eq('id', recordId)\<close> on \<open>updates\<close>: every row with that id is
  changed; the reply carries the changed rows (\<open>.select()\<close>). The schema's trigger
  \<open>BEFORE UPDATE ... FOR EACH ROW\<close> sets \<open>updated_at\<close> of each row the write touches to
  \<open>NOW()\<close>, the time \<open>store_now\<close> of the store at the write, whether or not the write
  changes a value.
\<close>

definition update_updates ::
  "store \<Rightarrow> timestamp \<Rightarrow> string \<Rightarrow> (SupabaseUpdateRow \<Rightarrow> SupabaseUpdateRow) \<Rightarrow>
   SupabaseUpdateRow list response option \<times> store" where
  "update_updates st store_now recordId change =
     (case backend st of
        Healthy \<Rightarrow>
          (let rows = map (\<lambda>u. if ur_id u = recordId
                             then (change u)\<lparr>ur_updated_at := store_now\<rparr> else u) (updates st) in
           (Some (answer (filter (\<lambda>u. ur_id u = recordId) rows)), st\<lparr>updates := rows\<rparr>))
      | Failing e \<Rightarrow> (Some (refuse e), st)
      | Unconfigured \<Rightarrow> (None, st))"

text \<open>
  The same on \<open>sponsorships\<close>, where a write that changes a sponsor code must
  leave the sponsor codes of the table pairwise different.
\<close>

definition update_sponsorships ::
  "store \<Rightarrow> timestamp \<Rightarrow> string \<Rightarrow> (SupabaseSponsorshipRow \<Rightarrow> SupabaseSponsorshipRow) \<Rightarrow>
   SupabaseSponsorshipRow list response option \<times> store" where
  "update_sponsorships st store_now recordId change =
     (case backend st of
        Healthy \<Rightarrow>
          (let rows = map (\<lambda>r. if sr_id r = recordId
                             then (change r)\<lparr>sr_updated_at := store_now\<rparr> else r) (sponsorships st) in
           if map sr_sponsor_code rows \<noteq> map sr_sponsor_code (sponsorships st) \<and>
              \<not> distinct (map sr_sponsor_code rows)
           then (Some (refuse unique_violation), st)
           else (Some (answer (filter (\<lambda>r. sr_id r = recordId) rows)), st\<lparr>sponsorships := rows\<rparr>))
      | Failing e \<Rightarrow> (Some (refuse e), st)
      | Unconfigured \<Rightarrow> (None, st))"

text \<open>
  \<open>.single()\<close> after a write that replies with a list of rows: the error of the write
  stays; otherwise the list must hold exactly one row.
\<close>

definition single_of :: "'a list response option \<Rightarrow> 'a response option" where
  "single_of r =
     (case r of
        None \<Rightarrow> None
      | Some x \<Rightarrow>
          (case error x of
             Some e \<Rightarrow> Some (refuse e)
           | None \<Rightarrow> (case data x of None \<Rightarrow> Some (refuse PGRST116) | Some rows \<Rightarrow> Some (single rows))))"

section \<open>The database layer\<close>

subsection \<open>Sponsorship queries\<close>

text \<open>
  Each function is the query it sends, followed by what it does with the reply. The two
  are written apart where a statement is about the reply alone.
\<close>

definition findSponsorshipByCredentials_query ::
  "store \<Rightarrow> string \<Rightarrow> string \<Rightarrow> SupabaseSponsorshipRow response option" where
  "findSponsorshipByCredentials_query st email code =
     reply st (single (take 1 (filter
       (\<lambda>r. sr_sponsor_email r = email \<and> sr_sponsor_code r = code \<and>
            sr_auth_status r = AUTH_STATUS_ACTIVE \<and> sr_visible_to_sponsor r = True)
       (sponsorships st))))"

definition findSponsorshipByCredentials_reply ::
  "SupabaseSponsorshipRow response option \<Rightarrow> db_error + AirtableSponsorshipRecord option" where
  "findSponsorshipByCredentials_reply r =
     (case r of
        None \<Rightarrow> Inl (DatabaseError ''Failed to connect to database'')
      | Some x \<Rightarrow>
          if error x \<noteq> None \<and> pg_code (the (error x)) \<noteq> ''PGRST116''
          then Inl (DatabaseError ''Failed to find sponsorship'')
          else Inr (case data x of Some row \<Rightarrow> Some (toAirtableSponsorshipRecord row) | None \<Rightarrow> None))"

definition findSponsorshipByCredentials ::
  "store \<Rightarrow> string \<Rightarrow> string \<Rightarrow> db_error + AirtableSponsorshipRecord option" where
  "findSponsorshipByCredentials st email code =
     findSponsorshipByCredentials_reply (findSponsorshipByCredentials_query st email code)"

definition findSponsorshipByCode :: "store \<Rightarrow> string \<Rightarrow> db_error + AirtableSponsorshipRecord option" where
  "findSponsorshipByCode st code =
     (case reply st (single (take 1 (filter
         (\<lambda>r. sr_sponsor_code r = code \<and> sr_auth_status r = AUTH_STATUS_ACTIVE \<and>
              sr_visible_to_sponsor r = True)
         (sponsorships st)))) of
        None \<Rightarrow> Inl (DatabaseError ''Failed to connect to database'')
      | Some x \<Rightarrow>
          if error x \<noteq> None \<and> pg_code (the (error x)) \<noteq> ''PGRST116''
          then Inl (DatabaseError ''Failed to find sponsorship'')
          else Inr (case data x of Some row \<Rightarrow> Some (toAirtableSponsorshipRecord row) | None \<Rightarrow> None))"

text \<open>
  \<open>updateSponsorshipRequestTracking\<close>: the write has the single filter
  \<open>.eq('id', recordId)\<close> and asks for no rows back; only an error object makes it throw.
  Here and in every function that writes to a row, \<open>store_now\<close> is the time of the store
  at the write.
\<close>

definition updateSponsorshipRequestTracking ::
  "store \<Rightarrow> timestamp \<Rightarrow> string \<Rightarrow> timestamp \<Rightarrow> timestamp \<Rightarrow> (db_error + unit) \<times> store" where
  "updateSponsorshipRequestTracking st store_now recordId lastRequestAt nextEligibleAt =
     (case update_sponsorships st store_now recordId
        (\<lambda>r. r\<lparr> sr_last_request_at := Some lastRequestAt,
                 sr_next_request_eligible_at := Some nextEligibleAt \<rparr>) of
        (None, st') \<Rightarrow> (Inl (DatabaseError ''Failed to connect to database''), st')
      | (Some x, st') \<Rightarrow>
          if error x \<noteq> None then (Inl (DatabaseError ''Failed to update sponsorship''), st')
          else (Inr (), st'))"

subsection \<open>Update queries\<close>

text \<open>
  \<open>.order('published_at', { ascending: false })\<close>: descending order of a nullable
  column puts the rows without a value first. The order is produced by insertion.
\<close>

definition newest_first :: "timestamp option \<Rightarrow> timestamp option \<Rightarrow> bool" where
  "newest_first a b =
     (case a of None \<Rightarrow> True | Some x \<Rightarrow> (case b of None \<Rightarrow> False | Some y \<Rightarrow> y \<le> x))"

fun insert_desc :: "SupabaseUpdateRow \<Rightarrow> SupabaseUpdateRow list \<Rightarrow> SupabaseUpdateRow list" where
  "insert_desc u [] = [u]"
| "insert_desc u (v # vs) =
     (if newest_first (ur_published_at u) (ur_published_at v) then u # v # vs
      else v # insert_desc u vs)"

definition order_published_at_desc :: "SupabaseUpdateRow list \<Rightarrow> SupabaseUpdateRow list" where
  "order_published_at_desc rows = foldr insert_desc rows []"

definition findUpdatesForChild :: "store \<Rightarrow> string \<Rightarrow> db_error + AirtableUpdateRecord list" where
  "findUpdatesForChild st childId =
     (case reply st (answer (order_published_at_desc (filter
         (\<lambda>u. ur_child_id u = childId \<and> ur_status u = UPDATE_STATUS_PUBLISHED \<and>
              ur_visible_to_sponsor u = True)
         (updates st)))) of
        None \<Rightarrow> Inl (DatabaseError ''Failed to connect to database'')
      | Some x \<Rightarrow>
          if error x \<noteq> None then Inl (DatabaseError ''Failed to find updates'')
          else Inr (map toAirtableUpdateRecord (case data x of Some rows \<Rightarrow> rows | None \<Rightarrow> [])))"

text \<open>
  \<open>createUpdateRequest\<close>. The row is the insert payload; the columns the payload leaves
  out take the default of the schema (no photos, no publish time, no submitter).
\<close>

definition createUpdateRequest ::
  "store \<Rightarrow> generated \<Rightarrow> timestamp \<Rightarrow> string \<Rightarrow> string \<Rightarrow> (db_error + AirtableUpdateRecord) \<times> store" where
  "createUpdateRequest st g now childId sponsorCode =
     (case insert_update st
        \<lparr> ur_id = gen_id g,
          ur_child_id = childId,
          ur_sponsor_code = Some sponsorCode,
          ur_update_type = ''Progress Report'',
          ur_title = ''Update Requested'',
          ur_content = ''Sponsor requested a new update.'',
          ur_photos = None,
          ur_status = UPDATE_STATUS_PENDING_REVIEW,
          ur_visible_to_sponsor = False,
          ur_requested_by_sponsor = Some True,
          ur_requested_at = Some now,
          ur_published_at = None,
          ur_submitted_by = None,
          ur_submitted_at = None,
          ur_created_at = gen_now g,
          ur_updated_at = gen_now g \<rparr> of
        (None, st') \<Rightarrow> (Inl (DatabaseError ''Failed to connect to database''), st')
      | (Some x, st') \<Rightarrow>
          (case (error x, data x) of
             (None, Some row) \<Rightarrow> (Inr (toAirtableUpdateRecord row), st')
           | (None, None) \<Rightarrow> (Inl (DatabaseError ''Failed to connect to database''), st')
           | (Some e, _) \<Rightarrow> (Inl (DatabaseError ''Failed to create update request''), st')))"

text \<open>
  \<open>submitUpdate\<close>. \<open>sponsor_code\<close> is part of the payload only when the given code is
  truthy; \<open>requested_by_sponsor\<close> takes its default false.
\<close>

record submitUpdate_data =
  su_childId :: string
  su_sponsorCode :: "string option"
  su_updateType :: string
  su_title :: string
  su_content :: string
  su_submittedBy :: string

definition submitUpdate ::
  "store \<Rightarrow> generated \<Rightarrow> timestamp \<Rightarrow> submitUpdate_data \<Rightarrow> (db_error + AirtableUpdateRecord) \<times> store" where
  "submitUpdate st g now d =
     (case insert_update st
        \<lparr> ur_id = gen_id g,
          ur_child_id = su_childId d,
          ur_sponsor_code = or_undefined (su_sponsorCode d),
          ur_update_type = su_updateType d,
          ur_title = su_title d,
          ur_content = su_content d,
          ur_photos = None,
          ur_status = UPDATE_STATUS_PENDING_REVIEW,
          ur_visible_to_sponsor = False,
          ur_requested_by_sponsor = Some False,
          ur_requested_at = None,
          ur_published_at = None,
          ur_submitted_by = Some (su_submittedBy d),
          ur_submitted_at = Some now,
          ur_created_at = gen_now g,
          ur_updated_at = gen_now g \<rparr> of
        (None, st') \<Rightarrow> (Inl (DatabaseError ''Failed to connect to database''), st')
      | (Some x, st') \<Rightarrow>
          (case (error x, data x) of
             (None, Some row) \<Rightarrow> (Inr (toAirtableUpdateRecord row), st')
           | (None, None) \<Rightarrow> (Inl (DatabaseError ''Failed to connect to database''), st')
           | (Some e, _) \<Rightarrow> (Inl (DatabaseError ''Failed to submit update''), st')))"

text \<open>
  \<open>publishUpdate\<close> and \<open>rejectUpdate\<close>: the write names the three (two) columns and
  filters on the id alone.
\<close>

definition publishUpdate ::
  "store \<Rightarrow> timestamp \<Rightarrow> timestamp \<Rightarrow> string \<Rightarrow> (db_error + AirtableUpdateRecord) \<times> store" where
  "publishUpdate st store_now now updateId =
     (case update_updates st store_now updateId
        (\<lambda>u. u\<lparr> ur_status := UPDATE_STATUS_PUBLISHED,
                 ur_visible_to_sponsor := True,
                 ur_published_at := Some now \<rparr>) of
        (r, st') \<Rightarrow>
          (case single_of r of
             None \<Rightarrow> (Inl (DatabaseError ''Failed to connect to database''), st')
           | Some x \<Rightarrow>
               (case (error x, data x) of
                  (None, Some row) \<Rightarrow> (Inr (toAirtableUpdateRecord row), st')
                | (None, None) \<Rightarrow> (Inl (DatabaseError ''Failed to connect to database''), st')
                | (Some e, _) \<Rightarrow> (Inl (DatabaseError ''Failed to publish update''), st'))))"

definition rejectUpdate ::
  "store \<Rightarrow> timestamp \<Rightarrow> string \<Rightarrow> (db_error + AirtableUpdateRecord) \<times> store" where
  "rejectUpdate st store_now updateId =
     (case update_updates st store_now updateId
        (\<lambda>u. u\<lparr> ur_status := UPDATE_STATUS_REJECTED,
                 ur_visible_to_sponsor := False \<rparr>) of
        (r, st') \<Rightarrow>
          (case single_of r of
             None \<Rightarrow> (Inl (DatabaseError ''Failed to connect to database''), st')
           | Some x \<Rightarrow>
               (case (error x, data x) of
                  (None, Some row) \<Rightarrow> (Inr (toAirtableUpdateRecord row), st')
                | (None, None) \<Rightarrow> (Inl (DatabaseError ''Failed to connect to database''), st')
                | (Some e, _) \<Rightarrow> (Inl (DatabaseError ''Failed to reject update''), st'))))"

subsection \<open>Creating and assigning sponsorships\<close>

text \<open>A number in a template literal is written in decimal.\<close>

function decimal :: "nat \<Rightarrow> string" where
  "decimal n =
     (if n < 10 then [char_of (48 + n)]
      else decimal (n div 10) @ [char_of (48 + n mod 10)])"
  by pat_completeness auto
termination
  by (relation "measure (\<lambda>n. n)") auto

declare decimal.simps [simp del]

text \<open>
  \<open>Math.floor(Math.random() * 900) + 100\<close>. The random number and its product with 900
  are computed by the platform in double precision; \<open>drawn\<close> is the whole number
  \<open>Math.floor(Math.random() * 900)\<close> that comes out of it, which the run takes as it is.
\<close>

definition randomNum :: "nat \<Rightarrow> nat" where
  "randomNum drawn = drawn + 100"

definition sponsorCode_of :: "nat \<Rightarrow> nat \<Rightarrow> string" where
  "sponsorCode_of year drawn = ''BAN-'' @ decimal year @ ''-'' @ decimal (randomNum drawn)"

record createSponsorship_data =
  cs_sponsorEmail :: string
  cs_sponsorName :: "string option"
  cs_childId :: string
  cs_childDisplayName :: string
  cs_childPhoto :: "photo list option"
  cs_childAge :: "string option"
  cs_childLocation :: "string option"

definition createSponsorship ::
  "store \<Rightarrow> generated \<Rightarrow> nat \<Rightarrow> nat \<Rightarrow> timestamp \<Rightarrow> createSponsorship_data \<Rightarrow>
   (db_error + AirtableSponsorshipRecord) \<times> store" where
  "createSponsorship st g year drawn now d =
     (case insert_sponsorship st
        \<lparr> sr_id = gen_id g,
          sr_sponsor_code = sponsorCode_of year drawn,
          sr_sponsor_email = cs_sponsorEmail d,
          sr_sponsor_name = or_undefined (cs_sponsorName d),
          sr_child_id = cs_childId d,
          sr_child_display_name = cs_childDisplayName d,
          sr_child_photo = cs_childPhoto d,
          sr_child_age = or_undefined (cs_childAge d),
          sr_child_location = or_undefined (cs_childLocation d),
          sr_sponsorship_start_date = Some (date_of now),
          sr_auth_status = AUTH_STATUS_ACTIVE,
          sr_status = Some SPONSORSHIP_STATUS_ACTIVE,
          sr_visible_to_sponsor = True,
          sr_last_request_at = None,
          sr_next_request_eligible_at = None,
          sr_created_at = gen_now g,
          sr_updated_at = gen_now g \<rparr> of
        (None, st') \<Rightarrow> (Inl (DatabaseError ''Failed to connect to database''), st')
      | (Some x, st') \<Rightarrow>
          (case (error x, data x) of
             (None, Some row) \<Rightarrow> (Inr (toAirtableSponsorshipRecord row), st')
           | (None, None) \<Rightarrow> (Inl (DatabaseError ''Failed to connect to database''), st')
           | (Some e, _) \<Rightarrow> (Inl (DatabaseError ''Failed to create sponsorship''), st')))"

record sponsorData =
  sd_sponsorEmail :: string
  sd_sponsorName :: "string option"
  sd_sponsorCode :: string

definition assignSponsorToChild ::
  "store \<Rightarrow> timestamp \<Rightarrow> timestamp \<Rightarrow> string \<Rightarrow> sponsorData \<Rightarrow>
   (db_error + AirtableSponsorshipRecord) \<times> store" where
  "assignSponsorToChild st store_now now recordId sd =
     (case update_sponsorships st store_now recordId
        (\<lambda>r. r\<lparr> sr_sponsor_code := sd_sponsorCode sd,
                 sr_sponsor_email := sd_sponsorEmail sd,
                 sr_auth_status := AUTH_STATUS_ACTIVE,
                 sr_status := Some SPONSORSHIP_STATUS_ACTIVE,
                 sr_visible_to_sponsor := True,
                 sr_sponsorship_start_date := Some (date_of now),
                 sr_sponsor_name :=
                   (if falsy (sd_sponsorName sd) then sr_sponsor_name r else sd_sponsorName sd) \<rparr>) of
        (r, st') \<Rightarrow>
          (case single_of r of
             None \<Rightarrow> (Inl (DatabaseError ''Failed to connect to database''), st')
           | Some x \<Rightarrow>
               (case (error x, data x) of
                  (None, Some row) \<Rightarrow> (Inr (toAirtableSponsorshipRecord row), st')
                | (None, None) \<Rightarrow> (Inl (DatabaseError ''Failed to connect to database''), st')
                | (Some e, _) \<Rightarrow> (Inl (DatabaseError ''Failed to assign sponsor''), st'))))"

section \<open>Session management (src/lib/auth.ts)\<close>

record SessionData =
  ss_email :: string
  ss_sponsorCode :: string
  ss_expires :: string

text \<open>
  \<open>new Date(text) < new Date()\<close>: a text that is no date gives an invalid Date, which
  compares false with everything.
\<close>

definition date_before :: "timestamp option \<Rightarrow> timestamp \<Rightarrow> bool" where
  "date_before d now = (case d of None \<Rightarrow> False | Some t \<Rightarrow> t < now)"

text \<open>
  \<open>getSession\<close>. The cookie is the value of the session cookie, if the request has
  one. \<open>JSON_parse\<close> stands for reading that value as a \<open>SessionData\<close> (\<open>None\<close> when
  \<open>JSON.parse\<close> or the access to the result throws), \<open>Date_parse\<close> for the Date
  constructor on a text (\<open>None\<close> for an invalid Date).
\<close>

definition getSession ::
  "(string \<Rightarrow> SessionData option) \<Rightarrow> (string \<Rightarrow> timestamp option) \<Rightarrow> timestamp \<Rightarrow>
   string option \<Rightarrow> SessionData option" where
  "getSession JSON_parse Date_parse now sessionCookie =
     (case sessionCookie of
        None \<Rightarrow> None
      | Some v \<Rightarrow>
          (case JSON_parse v of
             None \<Rightarrow> None
           | Some session \<Rightarrow>
               if date_before (Date_parse (ss_expires session)) now then None else Some session))"

definition verifySession ::
  "(string \<Rightarrow> SessionData option) \<Rightarrow> (string \<Rightarrow> timestamp option) \<Rightarrow> timestamp \<Rightarrow>
   store \<Rightarrow> string option \<Rightarrow> db_error + AirtableSponsorshipRecord option" where
  "verifySession JSON_parse Date_parse now st sessionCookie =
     (case getSession JSON_parse Date_parse now sessionCookie of
        None \<Rightarrow> Inr None
      | Some session \<Rightarrow>
          (case findSponsorshipByCode st (ss_sponsorCode session) of
             Inl e \<Rightarrow> Inl e
           | Inr None \<Rightarrow> Inr None
           | Inr (Some sponsorship) \<Rightarrow> Inr (Some sponsorship)))"

section \<open>The admin submit-update route\<close>

text \<open>
  The route writes to Airtable over HTTP. An exchange is a function from the call to its
  outcome: the call throws an Error with a message, or a response comes back with its
  \<open>ok\<close> flag, its text and, read as JSON, the \<open>ChildID\<close> of each of its \<open>records\<close> and
  its \<open>id\<close> (\<open>Inl\<close> when \<open>json()\<close> throws).
\<close>

record airtable_json =
  aj_records :: "string option list option"
  aj_id :: "string option"

record http_response =
  rsp_ok :: bool
  rsp_text :: string
  rsp_json :: "string + airtable_json"

datatype fetched = Thrown string | Responded http_response

record update_payload =
  up_ChildID :: string
  up_SponsorCode :: string
  up_UpdateType :: string
  up_Title :: string
  up_Content :: string
  up_Status :: string
  up_VisibleToSponsor :: bool
  up_RequestedBySponsor :: bool
  up_RequestedAt :: timestamp
  up_SubmittedBy :: string

datatype airtable_call =
  ListRecords string string string string
| CreateRecord string string string update_payload

text \<open>
  The validation and rate-limit modules are not among the sources. A validator gives
  the cleaned value or an error message; the rate limiter gives nothing or an error
  with an optional number of seconds.
\<close>

datatype validation = Valid string | Invalid "string option"

record validation_lib =
  validateSponsorCode :: "string option \<Rightarrow> validation"
  validateUpdateTitle :: "string option \<Rightarrow> validation"
  validateUpdateContent :: "string option \<Rightarrow> validation"
  validateRequiredString :: "string option \<Rightarrow> string \<Rightarrow> nat \<Rightarrow> nat \<Rightarrow> validation"
  sanitizeString :: "string option \<Rightarrow> string"
  escapeForAirtable :: "string \<Rightarrow> string"
  TOO_MANY_REQUESTS :: string

record rate_limit_error =
  retryAfter :: "nat option"

record environment =
  ADMIN_API_TOKEN :: "string option"
  AIRTABLE_API_KEY :: "string option"
  AIRTABLE_BASE_ID :: "string option"
  AIRTABLE_SPONSORSHIPS_TABLE :: "string option"
  AIRTABLE_UPDATES_TABLE :: "string option"

record form_data =
  fd_adminPassword :: "string option"
  fd_sponsorCode :: "string option"
  fd_updateType :: "string option"
  fd_title :: "string option"
  fd_content :: "string option"
  fd_submittedBy :: "string option"

record admin_request =
  rq_rateLimitError :: "rate_limit_error option"
  rq_headers :: headers
  rq_formData :: "string + form_data"

datatype response_body =
  ErrorBody "string option"
| SubmittedBody "string option" string

record json_response =
  status :: nat
  retry_after_header :: "string option"
  body :: response_body

definition json_error :: "nat \<Rightarrow> string option \<Rightarrow> json_response" where
  "json_error code msg = \<lparr> status = code, retry_after_header = None, body = ErrorBody msg \<rparr>"

text \<open>The \<open>catch\<close> of the route: the message of the Error, with status 500.\<close>

definition caught :: "string \<Rightarrow> json_response" where
  "caught errorMessage = json_error 500 (Some errorMessage)"

definition or_default :: "string option \<Rightarrow> string \<Rightarrow> string" where
  "or_default v d = (if falsy v then d else the v)"

definition POST ::
  "validation_lib \<Rightarrow> environment \<Rightarrow> (airtable_call \<Rightarrow> fetched) \<Rightarrow> timestamp \<Rightarrow>
   admin_request \<Rightarrow> json_response" where
  "POST lib env fetch now request =
     (case rq_rateLimitError request of
        Some rateLimitError \<Rightarrow>
          \<lparr> status = 429,
            retry_after_header =
              Some (case retryAfter rateLimitError of Some n \<Rightarrow> decimal n | None \<Rightarrow> ''60''),
            body = ErrorBody (Some (TOO_MANY_REQUESTS lib)) \<rparr>
      | None \<Rightarrow>
     (case rq_formData request of
        Inl m \<Rightarrow> caught m
      | Inr formData \<Rightarrow>
     if \<not> verifyAdminToken (ADMIN_API_TOKEN env) (rq_headers request) \<and>
        \<not> verifyFormToken (ADMIN_API_TOKEN env) (fd_adminPassword formData)
     then json_error 401 (Some ''Unauthorized - Invalid admin password'')
     else
     (let updateType = take 100 (sanitizeString lib (fd_updateType formData)) in
      case validateSponsorCode lib (fd_sponsorCode formData) of
        Invalid e \<Rightarrow> json_error 400 e
      | Valid code \<Rightarrow>
     (case validateUpdateTitle lib (fd_title formData) of
        Invalid e \<Rightarrow> json_error 400 e
      | Valid title \<Rightarrow>
     (case validateUpdateContent lib (fd_content formData) of
        Invalid e \<Rightarrow> json_error 400 e
      | Valid content \<Rightarrow>
     (case validateRequiredString lib (fd_submittedBy formData) ''Submitted by'' 1 200 of
        Invalid e \<Rightarrow> json_error 400 e
      | Valid submittedBy \<Rightarrow>
     if falsy (AIRTABLE_API_KEY env) \<or> falsy (AIRTABLE_BASE_ID env)
     then caught ''Airtable credentials not configured''
     else
     (let key = the (AIRTABLE_API_KEY env);
          base = the (AIRTABLE_BASE_ID env);
          sponsorshipFormula =
            ''{SponsorCode} = '' @ [CHR 0x22] @ escapeForAirtable lib code @ [CHR 0x22] in
      case fetch (ListRecords key base
             (or_default (AIRTABLE_SPONSORSHIPS_TABLE env) ''Sponsorships'') sponsorshipFormula) of
        Thrown m \<Rightarrow> caught m
      | Responded sponsorshipResponse \<Rightarrow>
     (case (if rsp_ok sponsorshipResponse
            then (case rsp_json sponsorshipResponse of
                    Inl m \<Rightarrow> Inl m
                  | Inr sponsorshipData \<Rightarrow>
                      Inr (case aj_records sponsorshipData of
                             Some (c # cs) \<Rightarrow> or_undefined c
                           | _ \<Rightarrow> None))
            else Inr None) of
        Inl m \<Rightarrow> caught m
      | Inr None \<Rightarrow> json_error 404 (Some ''Child ID not found for this sponsor code'')
      | Inr (Some childID) \<Rightarrow>
     (case fetch (CreateRecord key base
             (or_default (AIRTABLE_UPDATES_TABLE env) ''Updates'')
             \<lparr> up_ChildID = childID,
               up_SponsorCode = code,
               up_UpdateType = (if updateType = [] then ''Progress Report'' else updateType),
               up_Title = title,
               up_Content = content,
               up_Status = ''Pending Review'',
               up_VisibleToSponsor = False,
               up_RequestedBySponsor = False,
               up_RequestedAt = now,
               up_SubmittedBy = submittedBy \<rparr>) of
        Thrown m \<Rightarrow> caught m
      | Responded response \<Rightarrow>
          if \<not> rsp_ok response then caught (''Airtable API error: '' @ rsp_text response)
          else
            (case rsp_json response of
               Inl m \<Rightarrow> caught m
             | Inr d \<Rightarrow>
                 \<lparr> status = 200, retry_after_header = None,
                   body = SubmittedBody (aj_id d)
                     ''Update submitted successfully. Photos can be added in Airtable.'' \<rparr>))))))))))"

section \<open>The login route (sponsor verification over Airtable)\<close>

text \<open>
  \<open>verifySponsor\<close> of the login route looks a sponsor up by email and sponsor code, with
  a formula that also demands \<open>AuthStatus\<close> "Active" and \<open>VisibleToSponsor\<close> 1. Of
  each record of the response, which carries its \<open>fields\<close> object, it reads the fields
  below; \<open>AuthStatus\<close> is a text or missing, the checkbox \<open>VisibleToSponsor\<close> is a
  boolean, a number or missing, and \<open>vf_ChildPhoto\<close> is
  \<open>fields['ChildPhoto']?.[0]?.url\<close>.
\<close>

datatype checkbox = Checkbox_Bool bool | Checkbox_Number int | Checkbox_Missing

record verify_fields =
  vf_SponsorCode :: "string option"
  vf_SponsorEmail :: "string option"
  vf_SponsorName :: "string option"
  vf_ChildID :: "string option"
  vf_ChildDisplayName :: "string option"
  vf_ChildPhoto :: "string option"
  vf_SponsorshipStartDate :: "string option"
  vf_AuthStatus :: "string option"
  vf_VisibleToSponsor :: checkbox

record verify_response =
  vr_ok :: bool
  vr_text :: string
  vr_json :: "string + verify_fields list option"

datatype verify_fetched = Verify_Thrown string | Verify_Responded verify_response

record SponsorData =
  spd_sponsorCode :: string
  spd_email :: string
  spd_name :: string
  spd_childID :: string
  spd_childName :: string
  spd_childPhoto :: "string option"
  spd_sponsorshipStartDate :: string

text \<open>
  \<open>fetch key base table formula\<close> is the outcome of the GET request. \<open>Inl\<close> is the
  message of a thrown Error.
\<close>

definition verifySponsor ::
  "validation_lib \<Rightarrow> environment \<Rightarrow> (string \<Rightarrow> string \<Rightarrow> string \<Rightarrow> string \<Rightarrow> verify_fetched) \<Rightarrow>
   string \<Rightarrow> string \<Rightarrow> string + SponsorData option" where
  "verifySponsor lib env fetch email sponsorCode =
     (if falsy (AIRTABLE_API_KEY env) \<or> falsy (AIRTABLE_BASE_ID env)
      then Inl ''Airtable credentials not configured''
      else
     (let escapedEmail = escapeForAirtable lib email;
          escapedCode = escapeForAirtable lib sponsorCode;
          formula = ''AND({SponsorEmail}='' @ [CHR 0x22] @ escapedEmail @ [CHR 0x22] @
                    '',{SponsorCode}='' @ [CHR 0x22] @ escapedCode @ [CHR 0x22] @
                    '',{AuthStatus}='' @ [CHR 0x22] @ ''Active'' @ [CHR 0x22] @
                    '',{VisibleToSponsor}=1)'' in
      case fetch (the (AIRTABLE_API_KEY env)) (the (AIRTABLE_BASE_ID env))
             (or_default (AIRTABLE_SPONSORSHIPS_TABLE env) ''Sponsorships'') formula of
        Verify_Thrown m \<Rightarrow> Inl m
      | Verify_Responded response \<Rightarrow>
          if \<not> vr_ok response then Inl (''Airtable API error: '' @ vr_text response)
          else
            (case vr_json response of
               Inl m \<Rightarrow> Inl m
             | Inr records \<Rightarrow>
                 (case records of
                    Some (payload # rest) \<Rightarrow>
                      if vf_AuthStatus payload \<noteq> Some ''Active'' then Inr None
                      else if vf_VisibleToSponsor payload \<noteq> Checkbox_Bool True \<and>
                              vf_VisibleToSponsor payload \<noteq> Checkbox_Number 1 then Inr None
                      else Inr (Some
                        \<lparr> spd_sponsorCode = or_default (vf_SponsorCode payload) sponsorCode,
                          spd_email = or_default (vf_SponsorEmail payload) email,
                          spd_name = or_default (vf_SponsorName payload) [],
                          spd_childID = or_default (vf_ChildID payload) [],
                          spd_childName = or_default (vf_ChildDisplayName payload) [],
                          spd_childPhoto = or_undefined (vf_ChildPhoto payload),
                          spd_sponsorshipStartDate =
                            or_default (vf_SponsorshipStartDate payload) [] \<rparr>)
                  | _ \<Rightarrow> Inr None))))"

section \<open>The update lifecycle as a whole\<close>

text \<open>
  The invariant of the data model: an update is visible to the sponsor exactly when its
  review status is Published.
\<close>

definition visibility_invariant :: "store \<Rightarrow> bool" where
  "visibility_invariant st =
     list_all (\<lambda>u. ur_visible_to_sponsor u = (ur_status u = Published)) (updates st)"

text \<open>
  A history of the \<open>updates\<close> table is a list of lifecycle operations, each with the
  values it reads from its surroundings, interleaved with changes of the backend's
  health.
\<close>

datatype lifecycle_op =
  CreateUpdateRequest generated timestamp string string
| SubmitUpdate generated timestamp submitUpdate_data
| PublishUpdate timestamp timestamp string
| RejectUpdate timestamp string
| Backend backend

fun apply_op :: "store \<Rightarrow> lifecycle_op \<Rightarrow> store" where
  "apply_op st (CreateUpdateRequest g now childId sponsorCode) =
     snd (createUpdateRequest st g now childId sponsorCode)"
| "apply_op st (SubmitUpdate g now d) = snd (submitUpdate st g now d)"
| "apply_op st (PublishUpdate store_now now updateId) = snd (publishUpdate st store_now now updateId)"
| "apply_op st (RejectUpdate store_now updateId) = snd (rejectUpdate st store_now updateId)"
| "apply_op st (Backend b) = st\<lparr>backend := b\<rparr>"

section \<open>The sponsorship table as a whole\<close>

text \<open>Sponsor codes are unique when no two rows of the table carry the same code.\<close>

definition codes_unique :: "store \<Rightarrow> bool" where
  "codes_unique st = distinct (map sr_sponsor_code (sponsorships st))"

datatype sponsorship_op =
  CreateSponsorship generated nat nat timestamp createSponsorship_data
| AssignSponsorToChild timestamp timestamp string sponsorData
| UpdateRequestTracking timestamp string timestamp timestamp
| Outage backend

fun apply_sponsorship_op :: "store \<Rightarrow> sponsorship_op \<Rightarrow> store" where
  "apply_sponsorship_op st (CreateSponsorship g year drawn now d) =
     snd (createSponsorship st g year drawn now d)"
| "apply_sponsorship_op st (AssignSponsorToChild store_now now recordId sd) =
     snd (assignSponsorToChild st store_now now recordId sd)"
| "apply_sponsorship_op st (UpdateRequestTracking store_now recordId lastRequestAt nextEligibleAt) =
     snd (updateSponsorshipRequestTracking st store_now recordId lastRequestAt nextEligibleAt)"
| "apply_sponsorship_op st (Outage b) = st\<lparr>backend := b\<rparr>"

section \<open>Sample data\<close>

text \<open>The sponsorship of the specification's scenario, and a session cookie bound to it.\<close>

definition example_sponsorship :: SupabaseSponsorshipRow where
  "example_sponsorship =
     \<lparr> sr_id = ''s1'', sr_sponsor_code = ''BAN-2025-104'', sr_sponsor_email = ''a@x.com'',
       sr_sponsor_name = None, sr_child_id = ''c1'', sr_child_display_name = ''Child'',
       sr_child_photo = None, sr_child_age = None, sr_child_location = None,
       sr_sponsorship_start_date = None, sr_auth_status = Auth_Active,
       sr_status = Some Status_Active, sr_visible_to_sponsor = True,
       sr_last_request_at = Some 10, sr_next_request_eligible_at = Some 50,
       sr_created_at = 0, sr_updated_at = 0 \<rparr>"

definition example_store :: store where
  "example_store = \<lparr> sponsorships = [example_sponsorship], updates = [], backend = Healthy \<rparr>"

definition example_JSON_parse :: "string \<Rightarrow> SessionData option" where
  "example_JSON_parse v =
     (if v = ''session'' then Some \<lparr> ss_email = ''a@x.com'', ss_sponsorCode = ''BAN-2025-104'', ss_expires = ''T2000'' \<rparr>
      else if v = ''other'' then Some \<lparr> ss_email = ''a@x.com'', ss_sponsorCode = ''BAN-2025-999'', ss_expires = ''T2000'' \<rparr>
      else None)"

definition example_Date_parse :: "string \<Rightarrow> timestamp option" where
  "example_Date_parse t = (if t = ''T2000'' then Some 2000 else None)"

text \<open>The same sponsorship after an administrator suspended it.\<close>

definition suspended_sponsorship :: SupabaseSponsorshipRow where
  "suspended_sponsorship = example_sponsorship\<lparr>sr_auth_status := Auth_Suspended\<rparr>"

text \<open>An update of child \<open>c1\<close> in each review state.\<close>

definition pending_update :: SupabaseUpdateRow where
  "pending_update =
     \<lparr> ur_id = ''u1'', ur_child_id = ''c1'', ur_sponsor_code = Some ''BAN-2025-104'',
       ur_update_type = ''Progress Report'', ur_title = ''Term report'',
       ur_content = ''Doing well.'', ur_photos = None, ur_status = Pending_Review,
       ur_visible_to_sponsor = False, ur_requested_by_sponsor = Some False,
       ur_requested_at = None, ur_published_at = None, ur_submitted_by = Some ''field'',
       ur_submitted_at = Some 20, ur_created_at = 20,
       ur_updated_at = 20 \<rparr>"

definition published_update :: SupabaseUpdateRow where
  "published_update =
     pending_update\<lparr> ur_status := Published, ur_visible_to_sponsor := True,
                     ur_published_at := Some 100 \<rparr>"

definition rejected_update :: SupabaseUpdateRow where
  "rejected_update = pending_update\<lparr> ur_status := Rejected \<rparr>"

definition store_with :: "SupabaseUpdateRow list \<Rightarrow> store" where
  "store_with us = example_store\<lparr>updates := us\<rparr>"

definition example_generated :: generated where
  "example_generated = \<lparr> gen_id = ''u2'', gen_now = 60 \<rparr>"

text \<open>
  The row a sponsor's request for child \<open>c1\<close> creates at time 50, and the submission of
  the field team that creates \<open>pending_update\<close>.
\<close>

definition requested_update :: SupabaseUpdateRow where
  "requested_update =
     \<lparr> ur_id = ''u2'', ur_child_id = ''c1'', ur_sponsor_code = Some ''BAN-2025-104'',
       ur_update_type = ''Progress Report'', ur_title = ''Update Requested'',
       ur_content = ''Sponsor requested a new update.'', ur_photos = None,
       ur_status = Pending_Review, ur_visible_to_sponsor = False,
       ur_requested_by_sponsor = Some True, ur_requested_at = Some 50,
       ur_published_at = None, ur_submitted_by = None, ur_submitted_at = None,
       ur_created_at = 60, ur_updated_at = 60 \<rparr>"

definition example_submission :: submitUpdate_data where
  "example_submission =
     \<lparr> su_childId = ''c1'', su_sponsorCode = Some ''BAN-2025-104'',
       su_updateType = ''Progress Report'', su_title = ''Term report'',
       su_content = ''Doing well.'', su_submittedBy = ''field'' \<rparr>"

text \<open>
  A table with two published updates of child \<open>c1\<close>, the older one first, a pending
  one of the same child and a published one of another child.
\<close>

definition later_update :: SupabaseUpdateRow where
  "later_update = published_update\<lparr> ur_id := ''u3'', ur_published_at := Some 150 \<rparr>"

definition example_feed :: store where
  "example_feed =
     store_with
       [published_update,
        pending_update\<lparr> ur_id := ''u4'' \<rparr>,
        later_update,
        published_update\<lparr> ur_id := ''u5'', ur_child_id := ''c2'' \<rparr>]"

text \<open>A new sponsor for child \<open>c2\<close>, and a second assignment for the record \<open>s1\<close>.\<close>

definition example_new_sponsor :: createSponsorship_data where
  "example_new_sponsor =
     \<lparr> cs_sponsorEmail = ''b@x.com'', cs_sponsorName = Some ''B'', cs_childId = ''c2'',
       cs_childDisplayName = ''Second child'', cs_childPhoto = None, cs_childAge = None,
       cs_childLocation = None \<rparr>"

definition example_reassignment :: sponsorData where
  "example_reassignment =
     \<lparr> sd_sponsorEmail = ''b@x.com'', sd_sponsorName = None, sd_sponsorCode = ''BAN-2026-777'' \<rparr>"

text \<open>
  The row \<open>createSponsorship\<close> builds for that sponsor in the year 2025 when
  \<open>Math.floor(Math.random() * 900)\<close> is 450, the row of a later run that draws 451, and
  the store that holds the first of them next to the row of the first sponsor.
\<close>

definition new_sponsorship :: SupabaseSponsorshipRow where
  "new_sponsorship =
     \<lparr> sr_id = ''s2'', sr_sponsor_code = ''BAN-2025-550'', sr_sponsor_email = ''b@x.com'',
       sr_sponsor_name = Some ''B'', sr_child_id = ''c2'',
       sr_child_display_name = ''Second child'', sr_child_photo = None, sr_child_age = None,
       sr_child_location = None, sr_sponsorship_start_date = Some 0,
       sr_auth_status = Auth_Active, sr_status = Some Status_Active,
       sr_visible_to_sponsor = True, sr_last_request_at = None,
       sr_next_request_eligible_at = None, sr_created_at = 60,
       sr_updated_at = 60 \<rparr>"

definition third_sponsorship :: SupabaseSponsorshipRow where
  "third_sponsorship =
     new_sponsorship\<lparr> sr_id := ''s3'', sr_sponsor_code := ''BAN-2025-551'',
                      sr_created_at := 70, sr_updated_at := 70 \<rparr>"

definition two_sponsorships :: store where
  "two_sponsorships = example_store\<lparr>sponsorships := [example_sponsorship, new_sponsorship]\<rparr>"

text \<open>
  An authenticated submission of the field team to the admin route, with validators that
  accept every non-empty value, and an Airtable that finds the child of the sponsor code
  and then refuses the new record with the given text.
\<close>

definition accept_nonempty :: "string option \<Rightarrow> validation" where
  "accept_nonempty v = (if falsy v then Invalid (Some ''Required'') else Valid (the v))"

definition example_lib :: validation_lib where
  "example_lib =
     \<lparr> validateSponsorCode = accept_nonempty,
       validateUpdateTitle = accept_nonempty,
       validateUpdateContent = accept_nonempty,
       validateRequiredString = (\<lambda>v name lo hi. accept_nonempty v),
       sanitizeString = (\<lambda>v. case v of None \<Rightarrow> [] | Some s \<Rightarrow> s),
       escapeForAirtable = (\<lambda>s. s),
       TOO_MANY_REQUESTS = ''Too many requests'' \<rparr>"

definition example_env :: environment where
  "example_env =
     \<lparr> ADMIN_API_TOKEN = Some ''s3cret'', AIRTABLE_API_KEY = Some ''key'',
       AIRTABLE_BASE_ID = Some ''base'', AIRTABLE_SPONSORSHIPS_TABLE = None,
       AIRTABLE_UPDATES_TABLE = None \<rparr>"

definition example_admin_request :: admin_request where
  "example_admin_request =
     \<lparr> rq_rateLimitError = None,
       rq_headers = [''X-Admin-Token'' \<mapsto> ''s3cret''],
       rq_formData = Inr
         \<lparr> fd_adminPassword = None, fd_sponsorCode = Some ''BAN-2025-104'',
           fd_updateType = Some ''Progress Report'', fd_title = Some ''Term report'',
           fd_content = Some ''Doing well.'', fd_submittedBy = Some ''field'' \<rparr> \<rparr>"

definition refusing_airtable :: "string \<Rightarrow> airtable_call \<Rightarrow> fetched" where
  "refusing_airtable raw call =
     (case call of
        ListRecords key base table formula \<Rightarrow>
          Responded \<lparr> rsp_ok = True, rsp_text = [],
            rsp_json = Inr \<lparr> aj_records = Some [Some ''c1''], aj_id = None \<rparr> \<rparr>
      | CreateRecord key base table payload \<Rightarrow>
          Responded \<lparr> rsp_ok = False, rsp_text = raw, rsp_json = Inl ''Unexpected token'' \<rparr>)"


text \<open>
  An Airtable that answers the lookup of the login route with one record of the first
  sponsor, suspended.
\<close>

definition suspended_fields :: verify_fields where
  "suspended_fields =
     \<lparr> vf_SponsorCode = Some ''BAN-2025-104'', vf_SponsorEmail = Some ''a@x.com'',
       vf_SponsorName = None, vf_ChildID = Some ''c1'', vf_ChildDisplayName = Some ''Child'',
       vf_ChildPhoto = None, vf_SponsorshipStartDate = None,
       vf_AuthStatus = Some ''Suspended'', vf_VisibleToSponsor = Checkbox_Bool True \<rparr>"

definition suspended_airtable :: "string \<Rightarrow> string \<Rightarrow> string \<Rightarrow> string \<Rightarrow> verify_fetched" where
  "suspended_airtable key base table formula =
     Verify_Responded \<lparr> vr_ok = True, vr_text = [], vr_json = Inr (Some [suspended_fields]) \<rparr>"
section \<open>Properties of the admin token verification\<close>

lemma of_char_lt: "(of_char c :: nat) < 256"
  by (cases c) simp

lemma word8_of_nat_eq: "m < 256 \<Longrightarrow> n < 256 \<Longrightarrow> (of_nat m :: 8 word) = of_nat n \<Longrightarrow> m = n"
  by (simp add: word_of_nat_eq_iff take_bit_nat_eq_self)

lemma utf8_char_low:
  "(of_char c :: nat) < 128 \<Longrightarrow> utf8_char c = [of_nat (of_char c)]"
  by (simp only: utf8_char_def Let_def if_True)

lemma utf8_char_high:
  "\<not> (of_char c :: nat) < 128 \<Longrightarrow>
   utf8_char c = [of_nat (192 + of_char c div 64), of_nat (128 + of_char c mod 64)]"
  by (simp only: utf8_char_def Let_def if_False)

lemma utf8_char_low_app:
  assumes "(of_char c :: nat) < 128"
  shows "utf8_char c @ A = of_nat (of_char c) # A"
  unfolding utf8_char_low [OF assms] by (simp only: append_Cons append_Nil)

lemma utf8_char_high_app:
  assumes "\<not> (of_char c :: nat) < 128"
  shows "utf8_char c @ A = of_nat (192 + of_char c div 64) # of_nat (128 + of_char c mod 64) # A"
  unfolding utf8_char_high [OF assms] by (simp only: append_Cons append_Nil)

lemma lead_bound: "(n::nat) < 256 \<Longrightarrow> 192 + n div 64 < 256"
  by simp

lemma cont_bound: "128 + (n::nat) mod 64 < 256"
  by simp

lemma utf8_char_not_Nil: "utf8_char c \<noteq> []"
  using utf8_char_low [of c] utf8_char_high [of c] by (cases "(of_char c :: nat) < 128") simp_all

lemma utf8_char_prefix:
  assumes h: "utf8_char c @ A = utf8_char d @ B"
  shows "c = d \<and> A = B"
proof -
  let ?n = "of_char c :: nat" and ?m = "of_char d :: nat"
  have b: "?n < 256" "?m < 256" by (rule of_char_lt)+
  have "?n = ?m \<and> A = B"
  proof (cases "?n < 128")
    case n: True
    show ?thesis
    proof (cases "?m < 128")
      case True
      from h have "(of_nat ?n :: 8 word) = of_nat ?m" "A = B"
        unfolding utf8_char_low_app [OF n] utf8_char_low_app [OF True] by blast+
      with word8_of_nat_eq [OF b] show ?thesis by blast
    next
      case False
      from h have "(of_nat ?n :: 8 word) = of_nat (192 + ?m div 64)"
        unfolding utf8_char_low_app [OF n] utf8_char_high_app [OF False] by blast
      then have "?n = 192 + ?m div 64"
        using word8_of_nat_eq [OF b(1) lead_bound [OF b(2)]] by blast
      with n show ?thesis by simp
    qed
  next
    case n: False
    show ?thesis
    proof (cases "?m < 128")
      case True
      from h have "(of_nat ?m :: 8 word) = of_nat (192 + ?n div 64)"
        unfolding utf8_char_high_app [OF n] utf8_char_low_app [OF True] by (blast dest: sym)
      then have "?m = 192 + ?n div 64"
        using word8_of_nat_eq [OF b(2) lead_bound [OF b(1)]] by blast
      with True show ?thesis by simp
    next
      case False
      from h have e: "(of_nat (192 + ?n div 64) :: 8 word) = of_nat (192 + ?m div 64)"
        "(of_nat (128 + ?n mod 64) :: 8 word) = of_nat (128 + ?m mod 64)" "A = B"
        unfolding utf8_char_high_app [OF n] utf8_char_high_app [OF False] by blast+
      have "192 + ?n div 64 = 192 + ?m div 64"
        using word8_of_nat_eq [OF lead_bound [OF b(1)] lead_bound [OF b(2)] e(1)] .
      moreover have "128 + ?n mod 64 = 128 + ?m mod 64"
        using word8_of_nat_eq [OF cont_bound cont_bound e(2)] .
      ultimately have "?n div 64 = ?m div 64" "?n mod 64 = ?m mod 64" by simp_all
      then have "?n div 64 * 64 + ?n mod 64 = ?m div 64 * 64 + ?m mod 64" by (simp only:)
      then have "?n = ?m" by (simp only: div_mult_mod_eq)
      with e(3) show ?thesis by simp
    qed
  qed
  then show ?thesis by simp
qed

lemma Buffer_from_inj: "Buffer_from s = Buffer_from t \<Longrightarrow> s = t"
proof (induction s arbitrary: t)
  case Nil
  then show ?case by (cases t) (simp_all add: Buffer_from_def utf8_char_not_Nil)
next
  case (Cons x xs)
  show ?case
  proof (cases t)
    case Nil
    with Cons.prems show ?thesis by (simp add: Buffer_from_def utf8_char_not_Nil)
  next
    case (Cons y ys)
    with Cons.prems have "utf8_char x @ Buffer_from xs = utf8_char y @ Buffer_from ys"
      by (simp add: Buffer_from_def)
    then have "x = y \<and> Buffer_from xs = Buffer_from ys"
      by (rule utf8_char_prefix)
    with Cons.IH Cons show ?thesis by blast
  qed
qed

lemma timingSafeCompare_iff: "timingSafeCompare a b = (Buffer_from a = Buffer_from b)"
  by (auto simp: timingSafeCompare_def timingSafeEqual_def Let_def)

text \<open>
  Claim C4. Whatever token a request carries in its headers and whatever token a form
  carries: when no admin secret is configured (the variable is unset or empty), neither
  \<open>verifyAdminToken\<close> nor \<open>verifyFormToken\<close> accepts; and either of them accepts only
  when a non-empty secret is configured and the candidate token has the same bytes as
  the secret, which makes the two texts equal.
\<close>

theorem admin_token_fails_closed:
  "(falsy secret \<longrightarrow> \<not> verifyAdminToken secret hs \<and> \<not> verifyFormToken secret tok) \<and>
   (verifyAdminToken secret hs \<longrightarrow>
      (\<exists>s c. secret = Some s \<and> s \<noteq> [] \<and> requestToken hs = Some c \<and>
             Buffer_from c = Buffer_from s \<and> c = s)) \<and>
   (verifyFormToken secret tok \<longrightarrow>
      (\<exists>s c. secret = Some s \<and> s \<noteq> [] \<and> tok = Some c \<and>
             Buffer_from c = Buffer_from s \<and> c = s))"
proof (intro conjI impI)
  assume "falsy secret"
  then show "\<not> verifyAdminToken secret hs" by (simp add: verifyAdminToken_def)
next
  assume "falsy secret"
  then show "\<not> verifyFormToken secret tok" by (simp add: verifyFormToken_def)
next
  assume v: "verifyAdminToken secret hs"
  then obtain s c where sc: "secret = Some s" "s \<noteq> []" "requestToken hs = Some c"
    by (auto simp: verifyAdminToken_def falsy_def split: option.splits if_splits)
  with v have "Buffer_from c = Buffer_from s"
    by (simp add: verifyAdminToken_def falsy_def timingSafeCompare_iff split: if_splits)
  with sc show "\<exists>s c. secret = Some s \<and> s \<noteq> [] \<and> requestToken hs = Some c \<and>
      Buffer_from c = Buffer_from s \<and> c = s"
    by (blast dest: Buffer_from_inj)
next
  assume v: "verifyFormToken secret tok"
  then obtain s c where sc: "secret = Some s" "s \<noteq> []" "tok = Some c"
    by (auto simp: verifyFormToken_def falsy_def split: option.splits if_splits)
  with v have "Buffer_from c = Buffer_from s"
    by (auto simp: verifyFormToken_def falsy_def timingSafeEqual_def Let_def split: if_splits)
  with sc show "\<exists>s c. secret = Some s \<and> s \<noteq> [] \<and> tok = Some c \<and>
      Buffer_from c = Buffer_from s \<and> c = s"
    by (blast dest: Buffer_from_inj)
qed

theorem admin_token_fails_closed_witness:
  "\<not> verifyAdminToken None [''X-Admin-Token'' \<mapsto> ''s3cret''] \<and>
   \<not> verifyFormToken None (Some ''s3cret'') \<and>
   verifyAdminToken (Some ''s3cret'') [''Authorization'' \<mapsto> ''Bearer s3cret''] \<and>
   requestToken [''Authorization'' \<mapsto> ''Bearer s3cret''] = Some ''s3cret'' \<and>
   verifyFormToken (Some ''s3cret'') (Some ''s3cret'')"
proof -
  have f: "falsy None" by (simp add: falsy_def)
  have a: "verifyAdminToken (Some ''s3cret'') [''Authorization'' \<mapsto> ''Bearer s3cret'']"
    by code_simp
  have b: "verifyFormToken (Some ''s3cret'') (Some ''s3cret'')"
    by code_simp
  from f admin_token_fails_closed [of None "[''X-Admin-Token'' \<mapsto> ''s3cret'']" "Some ''s3cret''"]
  have "\<not> verifyAdminToken None [''X-Admin-Token'' \<mapsto> ''s3cret''] \<and>
        \<not> verifyFormToken None (Some ''s3cret'')" by blast
  moreover from a b
    admin_token_fails_closed [of "Some ''s3cret''" "[''Authorization'' \<mapsto> ''Bearer s3cret'']" "Some ''s3cret''"]
  have "requestToken [''Authorization'' \<mapsto> ''Bearer s3cret''] = Some ''s3cret''" by auto
  ultimately show ?thesis using a b by blast
qed

section \<open>Properties of the session verification\<close>

lemma take1_filter:
  "take (Suc 0) (filter P xs) = (case find P xs of None \<Rightarrow> [] | Some r \<Rightarrow> [r])"
  by (induction xs) simp_all

lemma single_take1_filter:
  "single (take (Suc 0) (filter P xs)) =
     (case find P xs of None \<Rightarrow> refuse PGRST116 | Some r \<Rightarrow> answer r)"
  by (simp add: take1_filter single_def split: option.splits)

lemma findSponsorshipByCode_Healthy:
  "backend st = Healthy \<Longrightarrow>
   findSponsorshipByCode st code =
     Inr (map_option toAirtableSponsorshipRecord
       (find (\<lambda>r. sr_sponsor_code r = code \<and> sr_auth_status r = Auth_Active \<and> sr_visible_to_sponsor r)
         (sponsorships st)))"
  by (simp add: findSponsorshipByCode_def reply_def single_take1_filter AUTH_STATUS_ACTIVE_def
      answer_def refuse_def PGRST116_def split: option.splits)

lemma findSponsorshipByCode_Some:
  "findSponsorshipByCode st code = Inr (Some r) \<Longrightarrow>
   backend st = Healthy \<and>
   (\<exists>row. find (\<lambda>r. sr_sponsor_code r = code \<and> sr_auth_status r = Auth_Active \<and> sr_visible_to_sponsor r)
         (sponsorships st) = Some row \<and> r = toAirtableSponsorshipRecord row)"
  by (cases "backend st")
     (auto simp: findSponsorshipByCode_def reply_def single_take1_filter AUTH_STATUS_ACTIVE_def
      answer_def refuse_def PGRST116_def split: option.splits if_splits)

text \<open>
  Claim C1. \<open>verifySession\<close> returns a sponsorship record only when the session cookie
  is present, can be read as a session, is not expired, and a row of the live store
  carries the session's sponsor code with activation status Active and visibility true;
  the record is that row. When the cookie is absent, unreadable or expired
  (\<open>expires < now\<close>), or when the store answers and holds no such row, the result is
  \<open>None\<close>, never an error; and on a store that answers, the conditions of the first
  sentence are enough for a record to come back. Expired means what the code tests: the
  date of \<open>expires\<close> lies before now, which a text that is no date never does.
\<close>

theorem verifySession_live_recheck:
  "(verifySession J D now st c = Inr (Some r) \<longrightarrow>
      (\<exists>v s row. c = Some v \<and> J v = Some s \<and> \<not> date_before (D (ss_expires s)) now \<and>
         row \<in> set (sponsorships st) \<and> sr_sponsor_code row = ss_sponsorCode s \<and>
         sr_auth_status row = Auth_Active \<and> sr_visible_to_sponsor row \<and>
         r = toAirtableSponsorshipRecord row)) \<and>
   (c = None \<or> (\<exists>v. c = Some v \<and> J v = None) \<or>
    (\<exists>v s. c = Some v \<and> J v = Some s \<and> date_before (D (ss_expires s)) now) \<or>
    (\<exists>v s. c = Some v \<and> J v = Some s \<and> backend st = Healthy \<and>
       \<not> (\<exists>row \<in> set (sponsorships st). sr_sponsor_code row = ss_sponsorCode s \<and>
            sr_auth_status row = Auth_Active \<and> sr_visible_to_sponsor row))
      \<longrightarrow> verifySession J D now st c = Inr None) \<and>
   (\<forall>v s. c = Some v \<and> J v = Some s \<and> \<not> date_before (D (ss_expires s)) now \<and>
       backend st = Healthy \<and>
       (\<exists>row \<in> set (sponsorships st). sr_sponsor_code row = ss_sponsorCode s \<and>
            sr_auth_status row = Auth_Active \<and> sr_visible_to_sponsor row)
      \<longrightarrow> (\<exists>r'. verifySession J D now st c = Inr (Some r') \<and>
             sf_SponsorCode (asr_fields r') = ss_sponsorCode s \<and>
             sf_AuthStatus (asr_fields r') = Auth_Active \<and> sf_VisibleToSponsor (asr_fields r')))"
proof (intro conjI impI allI)
  assume a: "verifySession J D now st c = Inr (Some r)"
  then obtain v s where vs: "c = Some v" "J v = Some s" "\<not> date_before (D (ss_expires s)) now"
    and f: "findSponsorshipByCode st (ss_sponsorCode s) = Inr (Some r)"
    by (auto simp: verifySession_def getSession_def split: option.splits if_splits sum.splits)
  from findSponsorshipByCode_Some [OF f] obtain row where
    "find (\<lambda>r. sr_sponsor_code r = ss_sponsorCode s \<and> sr_auth_status r = Auth_Active \<and> sr_visible_to_sponsor r)
         (sponsorships st) = Some row" "r = toAirtableSponsorshipRecord row" by blast
  then have "row \<in> set (sponsorships st) \<and> sr_sponsor_code row = ss_sponsorCode s \<and>
         sr_auth_status row = Auth_Active \<and> sr_visible_to_sponsor row \<and> r = toAirtableSponsorshipRecord row"
    by (auto simp: find_Some_iff)
  with vs show "\<exists>v s row. c = Some v \<and> J v = Some s \<and> \<not> date_before (D (ss_expires s)) now \<and>
         row \<in> set (sponsorships st) \<and> sr_sponsor_code row = ss_sponsorCode s \<and>
         sr_auth_status row = Auth_Active \<and> sr_visible_to_sponsor row \<and>
         r = toAirtableSponsorshipRecord row" by blast
next
  assume "c = None \<or> (\<exists>v. c = Some v \<and> J v = None) \<or>
    (\<exists>v s. c = Some v \<and> J v = Some s \<and> date_before (D (ss_expires s)) now) \<or>
    (\<exists>v s. c = Some v \<and> J v = Some s \<and> backend st = Healthy \<and>
       \<not> (\<exists>row \<in> set (sponsorships st). sr_sponsor_code row = ss_sponsorCode s \<and>
            sr_auth_status row = Auth_Active \<and> sr_visible_to_sponsor row))"
  then show "verifySession J D now st c = Inr None"
    by (auto simp: verifySession_def getSession_def findSponsorshipByCode_Healthy find_None_iff
        split: option.splits)
next
  fix v s
  assume "c = Some v \<and> J v = Some s \<and> \<not> date_before (D (ss_expires s)) now \<and>
       backend st = Healthy \<and>
       (\<exists>row \<in> set (sponsorships st). sr_sponsor_code row = ss_sponsorCode s \<and>
            sr_auth_status row = Auth_Active \<and> sr_visible_to_sponsor row)"
  then have vs: "c = Some v" "J v = Some s" "\<not> date_before (D (ss_expires s)) now"
    "backend st = Healthy" and
    ex: "\<exists>row \<in> set (sponsorships st). sr_sponsor_code row = ss_sponsorCode s \<and>
            sr_auth_status row = Auth_Active \<and> sr_visible_to_sponsor row" by blast+
  let ?P = "\<lambda>r. sr_sponsor_code r = ss_sponsorCode s \<and> sr_auth_status r = Auth_Active \<and> sr_visible_to_sponsor r"
  from ex obtain row where row: "find ?P (sponsorships st) = Some row"
    by (cases "find ?P (sponsorships st)") (auto simp: find_None_iff)
  then have p: "?P row" by (auto simp: find_Some_iff)
  from vs row have "verifySession J D now st c = Inr (Some (toAirtableSponsorshipRecord row))"
    by (simp add: verifySession_def getSession_def findSponsorshipByCode_Healthy)
  with p show "\<exists>r'. verifySession J D now st c = Inr (Some r') \<and>
             sf_SponsorCode (asr_fields r') = ss_sponsorCode s \<and>
             sf_AuthStatus (asr_fields r') = Auth_Active \<and> sf_VisibleToSponsor (asr_fields r')"
    by (simp add: toAirtableSponsorshipRecord_def)
qed

theorem verifySession_live_recheck_witness:
  "verifySession example_JSON_parse example_Date_parse 1000 example_store (Some ''session'') =
     Inr (Some (toAirtableSponsorshipRecord example_sponsorship)) \<and>
   verifySession example_JSON_parse example_Date_parse 1000 example_store None = Inr None \<and>
   verifySession example_JSON_parse example_Date_parse 1000 example_store (Some ''garbage'') = Inr None \<and>
   verifySession example_JSON_parse example_Date_parse 3000 example_store (Some ''session'') = Inr None \<and>
   verifySession example_JSON_parse example_Date_parse 1000 example_store (Some ''other'') = Inr None"
proof -
  let ?V = "verifySession example_JSON_parse example_Date_parse"
  have "\<exists>r'. ?V 1000 example_store (Some ''session'') = Inr (Some r')"
    using verifySession_live_recheck
      [of example_JSON_parse example_Date_parse 1000 example_store "Some ''session''",
        THEN conjunct2, THEN conjunct2]
    by (auto simp: example_JSON_parse_def example_Date_parse_def example_store_def
        example_sponsorship_def date_before_def)
  then obtain r' where r': "?V 1000 example_store (Some ''session'') = Inr (Some r')" ..
  with verifySession_live_recheck
      [of example_JSON_parse example_Date_parse 1000 example_store "Some ''session''" r']
  have "r' = toAirtableSponsorshipRecord example_sponsorship"
    by (auto simp: example_store_def)
  with r' have a: "?V 1000 example_store (Some ''session'') =
     Inr (Some (toAirtableSponsorshipRecord example_sponsorship))" by simp
  have b: "?V 1000 example_store None = Inr None"
    using verifySession_live_recheck
      [of example_JSON_parse example_Date_parse 1000 example_store None, THEN conjunct2, THEN conjunct1]
    by simp
  have c: "?V 1000 example_store (Some ''garbage'') = Inr None"
    using verifySession_live_recheck
      [of example_JSON_parse example_Date_parse 1000 example_store "Some ''garbage''",
        THEN conjunct2, THEN conjunct1]
    by (simp add: example_JSON_parse_def)
  have d: "?V 3000 example_store (Some ''session'') = Inr None"
    using verifySession_live_recheck
      [of example_JSON_parse example_Date_parse 3000 example_store "Some ''session''",
        THEN conjunct2, THEN conjunct1]
    by (simp add: example_JSON_parse_def example_Date_parse_def date_before_def)
  have e: "?V 1000 example_store (Some ''other'') = Inr None"
    using verifySession_live_recheck
      [of example_JSON_parse example_Date_parse 1000 example_store "Some ''other''",
        THEN conjunct2, THEN conjunct1]
    by (simp add: example_JSON_parse_def example_Date_parse_def date_before_def
        example_store_def example_sponsorship_def)
  from a b c d e show ?thesis by blast
qed

section \<open>Properties of the credential lookup\<close>

lemma findSponsorshipByCredentials_reply_row:
  "data x = Some row \<Longrightarrow> error x = None \<Longrightarrow>
   findSponsorshipByCredentials_reply (Some x) = Inr (Some (toAirtableSponsorshipRecord row))"
  by (simp add: findSponsorshipByCredentials_reply_def)

text \<open>
  On a store that honours the filters of the query, every record the function returns
  stems from a row with the given email and sponsor code that is Active and visible. A
  row that is not so can reach the function only in a reply that disagrees with the
  query, the case the re-check of the claim is meant for.
\<close>

lemma findSponsorshipByCredentials_filtered:
  assumes a: "findSponsorshipByCredentials st email code = Inr (Some r)"
  shows "\<exists>row \<in> set (sponsorships st). r = toAirtableSponsorshipRecord row \<and>
         sr_sponsor_email row = email \<and> sr_sponsor_code row = code \<and>
         sr_auth_status row = Auth_Active \<and> sr_visible_to_sponsor row"
proof -
  let ?P = "\<lambda>r. sr_sponsor_email r = email \<and> sr_sponsor_code r = code \<and>
            sr_auth_status r = Auth_Active \<and> sr_visible_to_sponsor r"
  from a have "\<exists>row. find ?P (sponsorships st) = Some row \<and> r = toAirtableSponsorshipRecord row"
    by (cases "backend st")
       (auto simp: findSponsorshipByCredentials_def findSponsorshipByCredentials_reply_def
          findSponsorshipByCredentials_query_def reply_def single_take1_filter
          AUTH_STATUS_ACTIVE_def answer_def refuse_def PGRST116_def
          split: option.splits if_splits)
  then show ?thesis by (auto simp: find_Some_iff)
qed

text \<open>
  Claim C3 says that a row handed back by the lookup is checked again, and that the
  result is null when its activation status or visibility disagrees with the query.
  \<open>findSponsorshipByCredentials\<close> does not do so: a reply \<open>{ data: row, error: null }\<close>
  whose row is the sponsorship of \<open>a@x.com\<close> with activation status Suspended is
  converted and returned as it is, with \<open>AuthStatus\<close> Suspended. \<open>verifySponsor\<close> of the
  login route, the same lookup over Airtable, does what the claim says: given a response
  whose first record is that sponsorship, suspended, it returns null.
\<close>

theorem findSponsorshipByCredentials_returns_unchecked_row:
  "findSponsorshipByCredentials_reply (Some \<lparr> data = Some suspended_sponsorship, error = None \<rparr>) =
     Inr (Some (toAirtableSponsorshipRecord suspended_sponsorship)) \<and>
   sr_sponsor_email suspended_sponsorship = ''a@x.com'' \<and>
   sr_sponsor_code suspended_sponsorship = ''BAN-2025-104'' \<and>
   sr_auth_status suspended_sponsorship = Auth_Suspended \<and>
   AUTH_STATUS_ACTIVE = Auth_Active \<and>
   sf_AuthStatus (asr_fields (toAirtableSponsorshipRecord suspended_sponsorship)) = Auth_Suspended \<and>
   verifySponsor example_lib example_env suspended_airtable ''a@x.com'' ''BAN-2025-104'' = Inr None"
proof -
  have "verifySponsor example_lib example_env suspended_airtable ''a@x.com'' ''BAN-2025-104'' = Inr None"
    by (simp add: verifySponsor_def example_env_def falsy_def suspended_airtable_def
        suspended_fields_def Let_def)
  then show ?thesis
    by (simp add: findSponsorshipByCredentials_reply_def suspended_sponsorship_def
        example_sponsorship_def toAirtableSponsorshipRecord_def AUTH_STATUS_ACTIVE_def)
qed

section \<open>Properties of the update lifecycle\<close>

subsection \<open>What the review operations do on a store that answers\<close>

lemma filter_map_id:
  assumes "\<And>u. ur_id (f u) = ur_id u"
  shows "filter (\<lambda>u. ur_id u = i) (map (\<lambda>u. if ur_id u = i then f u else u) us) =
         map f (filter (\<lambda>u. ur_id u = i) us)"
  by (induction us) (simp_all add: assms)

lemma publishUpdate_Healthy:
  assumes "backend st = Healthy"
  shows "publishUpdate st t now i =
    ((case filter (\<lambda>u. ur_id u = i) (updates st) of
        [u] \<Rightarrow> Inr (toAirtableUpdateRecord (u\<lparr> ur_status := Published, ur_visible_to_sponsor := True, ur_published_at := Some now, ur_updated_at := t \<rparr>))
      | _ \<Rightarrow> Inl (DatabaseError ''Failed to publish update'')),
     st\<lparr>updates := map (\<lambda>u. if ur_id u = i then u\<lparr> ur_status := Published, ur_visible_to_sponsor := True, ur_published_at := Some now, ur_updated_at := t \<rparr> else u) (updates st)\<rparr>)"
proof -
  let ?f = "\<lambda>u. u\<lparr> ur_status := Published, ur_visible_to_sponsor := True, ur_published_at := Some now, ur_updated_at := t \<rparr>"
  have f: "filter (\<lambda>u. ur_id u = i) (map (\<lambda>u. if ur_id u = i then ?f u else u) (updates st)) =
         map ?f (filter (\<lambda>u. ur_id u = i) (updates st))"
    by (rule filter_map_id) simp
  show ?thesis
  proof (cases "filter (\<lambda>u. ur_id u = i) (updates st)")
    case Nil
    with assms f show ?thesis
      by (simp add: publishUpdate_def update_updates_def single_of_def single_def answer_def
          refuse_def Let_def UPDATE_STATUS_PUBLISHED_def)
  next
    case (Cons u us)
    with assms f show ?thesis
      by (cases us)
         (simp_all add: publishUpdate_def update_updates_def single_of_def single_def answer_def
          refuse_def Let_def UPDATE_STATUS_PUBLISHED_def)
  qed
qed

lemma rejectUpdate_Healthy:
  assumes "backend st = Healthy"
  shows "rejectUpdate st t i =
    ((case filter (\<lambda>u. ur_id u = i) (updates st) of
        [u] \<Rightarrow> Inr (toAirtableUpdateRecord (u\<lparr> ur_status := Rejected, ur_visible_to_sponsor := False, ur_updated_at := t \<rparr>))
      | _ \<Rightarrow> Inl (DatabaseError ''Failed to reject update'')),
     st\<lparr>updates := map (\<lambda>u. if ur_id u = i then u\<lparr> ur_status := Rejected, ur_visible_to_sponsor := False, ur_updated_at := t \<rparr> else u) (updates st)\<rparr>)"
proof -
  let ?f = "\<lambda>u. u\<lparr> ur_status := Rejected, ur_visible_to_sponsor := False, ur_updated_at := t \<rparr>"
  have f: "filter (\<lambda>u. ur_id u = i) (map (\<lambda>u. if ur_id u = i then ?f u else u) (updates st)) =
         map ?f (filter (\<lambda>u. ur_id u = i) (updates st))"
    by (rule filter_map_id) simp
  show ?thesis
  proof (cases "filter (\<lambda>u. ur_id u = i) (updates st)")
    case Nil
    with assms f show ?thesis
      by (simp add: rejectUpdate_def update_updates_def single_of_def single_def answer_def
          refuse_def Let_def UPDATE_STATUS_REJECTED_def)
  next
    case (Cons u us)
    with assms f show ?thesis
      by (cases us)
         (simp_all add: rejectUpdate_def update_updates_def single_of_def single_def answer_def
          refuse_def Let_def UPDATE_STATUS_REJECTED_def)
  qed
qed

lemma publishUpdate_not_Healthy:
  "backend st \<noteq> Healthy \<Longrightarrow>
   snd (publishUpdate st t now i) = st \<and> (\<exists>e. fst (publishUpdate st t now i) = Inl e)"
  by (cases "backend st")
     (simp_all add: publishUpdate_def update_updates_def single_of_def refuse_def)

lemma rejectUpdate_not_Healthy:
  "backend st \<noteq> Healthy \<Longrightarrow>
   snd (rejectUpdate st t i) = st \<and> (\<exists>e. fst (rejectUpdate st t i) = Inl e)"
  by (cases "backend st")
     (simp_all add: rejectUpdate_def update_updates_def single_of_def refuse_def)

lemma toAirtableUpdateRecord_status:
  "uf_Status (aur_fields (toAirtableUpdateRecord u)) = ur_status u"
  "uf_VisibleToSponsor (aur_fields (toAirtableUpdateRecord u)) = ur_visible_to_sponsor u"
  "uf_PublishedAt (aur_fields (toAirtableUpdateRecord u)) = ur_published_at u"
  "uf_ChildID (aur_fields (toAirtableUpdateRecord u)) = ur_child_id u"
  "aur_id (toAirtableUpdateRecord u) = ur_id u"
  by (simp_all add: toAirtableUpdateRecord_def)

lemma toAirtableUpdateRecord_updated_at:
  "toAirtableUpdateRecord (u\<lparr>ur_updated_at := t\<rparr>) = toAirtableUpdateRecord u"
  by (simp add: toAirtableUpdateRecord_def)

subsection \<open>No precondition on the current review status\<close>

text \<open>
  Claim C10. \<open>publishUpdate\<close> and \<open>rejectUpdate\<close> look at no column of the row but its
  id. On a store that answers, for the one row \<open>u\<close> with the given id and whatever its
  review status, \<open>publishUpdate\<close> sets status Published, visibility true and the publish
  time of this call and returns that row, and \<open>rejectUpdate\<close> sets status Rejected and
  visibility false and returns that row; the store stamps \<open>updated_at\<close> of the row with
  its own time \<open>t\<close>, and no other row and no other column changes. In particular a
  Rejected update becomes Published and visible by one call of \<open>publishUpdate\<close>.
\<close>

theorem publish_reject_unconditional:
  "backend st = Healthy \<and> filter (\<lambda>v. ur_id v = i) (updates st) = [u] \<longrightarrow>
     publishUpdate st t now i =
       (Inr (toAirtableUpdateRecord
          (u\<lparr> ur_status := Published, ur_visible_to_sponsor := True, ur_published_at := Some now, ur_updated_at := t \<rparr>)),
        st\<lparr>updates := map (\<lambda>v. if ur_id v = i
            then v\<lparr> ur_status := Published, ur_visible_to_sponsor := True, ur_published_at := Some now, ur_updated_at := t \<rparr>
            else v) (updates st)\<rparr>) \<and>
     rejectUpdate st t i =
       (Inr (toAirtableUpdateRecord
          (u\<lparr> ur_status := Rejected, ur_visible_to_sponsor := False, ur_updated_at := t \<rparr>)),
        st\<lparr>updates := map (\<lambda>v. if ur_id v = i
            then v\<lparr> ur_status := Rejected, ur_visible_to_sponsor := False, ur_updated_at := t \<rparr>
            else v) (updates st)\<rparr>)"
  by (simp add: publishUpdate_Healthy rejectUpdate_Healthy)

theorem publish_reject_unconditional_witness:
  "ur_status rejected_update = Rejected \<and>
   publishUpdate (store_with [rejected_update]) 210 200 ''u1'' =
     (Inr (toAirtableUpdateRecord
        (rejected_update\<lparr> ur_status := Published, ur_visible_to_sponsor := True, ur_published_at := Some 200, ur_updated_at := 210 \<rparr>)),
      store_with [rejected_update\<lparr> ur_status := Published, ur_visible_to_sponsor := True, ur_published_at := Some 200, ur_updated_at := 210 \<rparr>]) \<and>
   ur_status published_update = Published \<and>
   rejectUpdate (store_with [published_update]) 210 ''u1'' =
     (Inr (toAirtableUpdateRecord
        (published_update\<lparr> ur_status := Rejected, ur_visible_to_sponsor := False, ur_updated_at := 210 \<rparr>)),
      store_with [published_update\<lparr> ur_status := Rejected, ur_visible_to_sponsor := False, ur_updated_at := 210 \<rparr>])"
proof -
  have r: "ur_id rejected_update = ''u1''" "ur_id published_update = ''u1''"
    by (simp_all add: rejected_update_def published_update_def pending_update_def)
  have h: "backend (store_with [rejected_update]) = Healthy \<and>
        filter (\<lambda>v. ur_id v = ''u1'') (updates (store_with [rejected_update])) = [rejected_update]"
       "backend (store_with [published_update]) = Healthy \<and>
        filter (\<lambda>v. ur_id v = ''u1'') (updates (store_with [published_update])) = [published_update]"
    by (simp_all add: store_with_def example_store_def r)
  have s: "ur_status rejected_update = Rejected" "ur_status published_update = Published"
    by (simp_all add: rejected_update_def published_update_def pending_update_def)
  from publish_reject_unconditional
    [of "store_with [rejected_update]" "''u1''" rejected_update 210 200] h(1)
  have "publishUpdate (store_with [rejected_update]) 210 200 ''u1'' =
     (Inr (toAirtableUpdateRecord
        (rejected_update\<lparr> ur_status := Published, ur_visible_to_sponsor := True, ur_published_at := Some 200, ur_updated_at := 210 \<rparr>)),
      store_with [rejected_update\<lparr> ur_status := Published, ur_visible_to_sponsor := True, ur_published_at := Some 200, ur_updated_at := 210 \<rparr>])"
    by (simp add: store_with_def r)
  moreover
  from publish_reject_unconditional
    [of "store_with [published_update]" "''u1''" published_update 210 200] h(2)
  have "rejectUpdate (store_with [published_update]) 210 ''u1'' =
     (Inr (toAirtableUpdateRecord
        (published_update\<lparr> ur_status := Rejected, ur_visible_to_sponsor := False, ur_updated_at := 210 \<rparr>)),
      store_with [published_update\<lparr> ur_status := Rejected, ur_visible_to_sponsor := False, ur_updated_at := 210 \<rparr>])"
    by (simp add: store_with_def r)
  ultimately show ?thesis using s by blast
qed

subsection \<open>A second identical review call\<close>

text \<open>
  The claim that a second \<open>publishUpdate\<close> leaves \<open>published_at\<close> alone or is refused
  fails: on an update published at time 100, a call at time 200 succeeds and the row
  then carries the publish time 200.
\<close>

theorem publishUpdate_restamps_counterexample:
  "ur_status published_update = Published \<and>
   map ur_published_at (updates (store_with [published_update])) = [Some 100] \<and>
   fst (publishUpdate (store_with [published_update]) 210 200 ''u1'') =
     Inr (toAirtableUpdateRecord (published_update\<lparr>ur_published_at := Some 200\<rparr>)) \<and>
   map ur_published_at
     (updates (snd (publishUpdate (store_with [published_update]) 210 200 ''u1''))) =
     [Some 200]"
  by (simp add: publishUpdate_Healthy store_with_def example_store_def published_update_def
      pending_update_def toAirtableUpdateRecord_def)

lemma publish_after_publish:
  "publishUpdate (snd (publishUpdate st s1 t1 i)) s2 t2 i = publishUpdate st s2 t2 i"
proof (cases "backend st = Healthy")
  case True
  let ?g = "\<lambda>s t u. u\<lparr> ur_status := Published, ur_visible_to_sponsor := True, ur_published_at := Some t, ur_updated_at := s \<rparr>"
  have f: "filter (\<lambda>u. ur_id u = i) (map (\<lambda>u. if ur_id u = i then ?g s1 t1 u else u) (updates st)) =
         map (?g s1 t1) (filter (\<lambda>u. ur_id u = i) (updates st))"
    by (rule filter_map_id) simp
  have m: "map ((\<lambda>u. if ur_id u = i then ?g s2 t2 u else u) \<circ>
                (\<lambda>u. if ur_id u = i then ?g s1 t1 u else u)) (updates st)
        = map (\<lambda>u. if ur_id u = i then ?g s2 t2 u else u) (updates st)"
    by (rule map_cong) simp_all
  show ?thesis
  proof (cases "filter (\<lambda>u. ur_id u = i) (updates st)")
    case Nil
    with True f m show ?thesis by (simp add: publishUpdate_Healthy)
  next
    case (Cons u us)
    with True f m show ?thesis by (cases us) (simp_all add: publishUpdate_Healthy)
  qed
next
  case False
  then show ?thesis
    by (cases "backend st")
       (simp_all add: publishUpdate_def update_updates_def single_of_def refuse_def)
qed

lemma reject_after_reject:
  "rejectUpdate (snd (rejectUpdate st s1 i)) s2 i = rejectUpdate st s2 i"
proof (cases "backend st = Healthy")
  case True
  let ?g = "\<lambda>s u. u\<lparr> ur_status := Rejected, ur_visible_to_sponsor := False, ur_updated_at := s \<rparr>"
  have f: "filter (\<lambda>u. ur_id u = i) (map (\<lambda>u. if ur_id u = i then ?g s1 u else u) (updates st)) =
         map (?g s1) (filter (\<lambda>u. ur_id u = i) (updates st))"
    by (rule filter_map_id) simp
  have m: "map ((\<lambda>u. if ur_id u = i then ?g s2 u else u) \<circ>
                (\<lambda>u. if ur_id u = i then ?g s1 u else u)) (updates st)
        = map (\<lambda>u. if ur_id u = i then ?g s2 u else u) (updates st)"
    by (rule map_cong) simp_all
  show ?thesis
  proof (cases "filter (\<lambda>u. ur_id u = i) (updates st)")
    case Nil
    with True f m show ?thesis by (simp add: rejectUpdate_Healthy)
  next
    case (Cons u us)
    with True f m show ?thesis by (cases us) (simp_all add: rejectUpdate_Healthy)
  qed
next
  case False
  then show ?thesis
    by (cases "backend st")
       (simp_all add: rejectUpdate_def update_updates_def single_of_def refuse_def)
qed

lemma rejectUpdate_fst_time:
  "fst (rejectUpdate st s2 i) = fst (rejectUpdate st s1 i)"
proof (cases "backend st = Healthy")
  case True
  show ?thesis
  proof (cases "filter (\<lambda>u. ur_id u = i) (updates st)")
    case Nil
    with True show ?thesis by (simp add: rejectUpdate_Healthy)
  next
    case (Cons u us)
    with True show ?thesis
      by (cases us) (simp_all add: rejectUpdate_Healthy toAirtableUpdateRecord_def)
  qed
next
  case False
  then show ?thesis
    by (cases "backend st")
       (simp_all add: rejectUpdate_def update_updates_def single_of_def refuse_def)
qed

lemma rejectUpdate_published_at:
  "map ur_published_at (updates (snd (rejectUpdate st s i))) = map ur_published_at (updates st)"
proof (cases "backend st = Healthy")
  case True
  have "map (ur_published_at \<circ> (\<lambda>u. if ur_id u = i then u\<lparr> ur_status := Rejected, ur_visible_to_sponsor := False, ur_updated_at := s \<rparr> else u)) (updates st) =
        map ur_published_at (updates st)"
    by (rule map_cong) simp_all
  with True show ?thesis by (simp add: rejectUpdate_Healthy)
next
  case False
  with rejectUpdate_not_Healthy [OF False, of s i] show ?thesis by simp
qed

text \<open>
  Claim C5, as amended. A second \<open>rejectUpdate\<close> on the same id does not change
  \<open>published_at\<close> of any row (the \<open>updates\<close> table keeps no rejection reason) and returns
  the record the first call returned; it is not refused, and of the row it writes, only
  \<open>updated_at\<close>, which the store stamps on every write, differs from what the first call
  left. A second \<open>publishUpdate\<close> is not refused either: two calls in a row leave the
  store, and return the record, of the second call alone, so the row carries the publish
  time of the second call.
\<close>

theorem second_review_call:
  "fst (rejectUpdate (snd (rejectUpdate st s1 i)) s2 i) = fst (rejectUpdate st s1 i) \<and>
   map ur_published_at (updates (snd (rejectUpdate (snd (rejectUpdate st s1 i)) s2 i))) =
     map ur_published_at (updates st) \<and>
   (backend st = Healthy \<and> filter (\<lambda>v. ur_id v = i) (updates st) = [u] \<longrightarrow>
      rejectUpdate (snd (rejectUpdate st s1 i)) s2 i =
        (Inr (toAirtableUpdateRecord (u\<lparr> ur_status := Rejected, ur_visible_to_sponsor := False \<rparr>)),
         (snd (rejectUpdate st s1 i))
           \<lparr>updates := map (\<lambda>v. if ur_id v = i then v\<lparr>ur_updated_at := s2\<rparr> else v)
              (updates (snd (rejectUpdate st s1 i)))\<rparr>)) \<and>
   publishUpdate (snd (publishUpdate st s1 t1 i)) s2 t2 i = publishUpdate st s2 t2 i \<and>
   (backend st = Healthy \<and> filter (\<lambda>v. ur_id v = i) (updates st) = [u] \<longrightarrow>
      (\<exists>r. fst (publishUpdate (snd (publishUpdate st s1 t1 i)) s2 t2 i) = Inr r \<and>
           uf_PublishedAt (aur_fields r) = Some t2) \<and>
      map ur_published_at
        (filter (\<lambda>v. ur_id v = i)
           (updates (snd (publishUpdate (snd (publishUpdate st s1 t1 i)) s2 t2 i)))) =
        [Some t2])"
proof (intro conjI impI)
  note q = reject_after_reject [of st s1 i s2]
  show "fst (rejectUpdate (snd (rejectUpdate st s1 i)) s2 i) = fst (rejectUpdate st s1 i)"
    unfolding q by (rule rejectUpdate_fst_time)
  show "map ur_published_at (updates (snd (rejectUpdate (snd (rejectUpdate st s1 i)) s2 i))) =
     map ur_published_at (updates st)"
    unfolding q by (rule rejectUpdate_published_at)
  show p: "publishUpdate (snd (publishUpdate st s1 t1 i)) s2 t2 i = publishUpdate st s2 t2 i"
    by (rule publish_after_publish)
  {
    assume h: "backend st = Healthy \<and> filter (\<lambda>v. ur_id v = i) (updates st) = [u]"
    have m: "map ((\<lambda>v. if ur_id v = i then v\<lparr>ur_updated_at := s2\<rparr> else v) \<circ>
                  (\<lambda>v. if ur_id v = i then v\<lparr> ur_status := Rejected, ur_visible_to_sponsor := False, ur_updated_at := s1 \<rparr> else v)) (updates st) =
             map (\<lambda>v. if ur_id v = i then v\<lparr> ur_status := Rejected, ur_visible_to_sponsor := False, ur_updated_at := s2 \<rparr> else v) (updates st)"
      by (rule map_cong) simp_all
    from h m show "rejectUpdate (snd (rejectUpdate st s1 i)) s2 i =
        (Inr (toAirtableUpdateRecord (u\<lparr> ur_status := Rejected, ur_visible_to_sponsor := False \<rparr>)),
         (snd (rejectUpdate st s1 i))
           \<lparr>updates := map (\<lambda>v. if ur_id v = i then v\<lparr>ur_updated_at := s2\<rparr> else v)
              (updates (snd (rejectUpdate st s1 i)))\<rparr>)"
      unfolding q by (simp add: rejectUpdate_Healthy toAirtableUpdateRecord_def)
  }
  assume h: "backend st = Healthy \<and> filter (\<lambda>v. ur_id v = i) (updates st) = [u]"
  then show "\<exists>r. fst (publishUpdate (snd (publishUpdate st s1 t1 i)) s2 t2 i) = Inr r \<and>
           uf_PublishedAt (aur_fields r) = Some t2"
    unfolding p by (simp add: publishUpdate_Healthy toAirtableUpdateRecord_status)
  let ?g = "\<lambda>u. u\<lparr> ur_status := Published, ur_visible_to_sponsor := True, ur_published_at := Some t2, ur_updated_at := s2 \<rparr>"
  have f: "filter (\<lambda>u. ur_id u = i) (map (\<lambda>u. if ur_id u = i then ?g u else u) (updates st)) =
         map ?g (filter (\<lambda>u. ur_id u = i) (updates st))"
    by (rule filter_map_id) simp
  from h show "map ur_published_at
        (filter (\<lambda>v. ur_id v = i)
           (updates (snd (publishUpdate (snd (publishUpdate st s1 t1 i)) s2 t2 i)))) =
        [Some t2]"
    unfolding p by (simp add: publishUpdate_Healthy f)
qed

theorem second_review_call_witness:
  "fst (rejectUpdate (snd (rejectUpdate (store_with [pending_update]) 110 ''u1'')) 210 ''u1'') =
     Inr (toAirtableUpdateRecord rejected_update) \<and>
   snd (rejectUpdate (store_with [pending_update]) 110 ''u1'') =
     store_with [rejected_update\<lparr>ur_updated_at := 110\<rparr>] \<and>
   snd (rejectUpdate (snd (rejectUpdate (store_with [pending_update]) 110 ''u1'')) 210 ''u1'') =
     store_with [rejected_update\<lparr>ur_updated_at := 210\<rparr>] \<and>
   map ur_published_at (filter (\<lambda>v. ur_id v = ''u1'')
     (updates (snd (publishUpdate (snd (publishUpdate (store_with [pending_update]) 110 100 ''u1''))
        210 200 ''u1'')))) = [Some 200]"
proof -
  have h: "backend (store_with [pending_update]) = Healthy \<and>
        filter (\<lambda>v. ur_id v = ''u1'') (updates (store_with [pending_update])) = [pending_update]"
    by (simp add: store_with_def example_store_def pending_update_def)
  have e: "snd (rejectUpdate (store_with [pending_update]) 110 ''u1'') =
     store_with [rejected_update\<lparr>ur_updated_at := 110\<rparr>]"
    by (simp add: rejectUpdate_Healthy store_with_def example_store_def pending_update_def
        rejected_update_def)
  note t = second_review_call [of "store_with [pending_update]" 110 "''u1''" 210 pending_update 100 200]
  from t h have "rejectUpdate (snd (rejectUpdate (store_with [pending_update]) 110 ''u1'')) 210 ''u1'' =
        (Inr (toAirtableUpdateRecord
           (pending_update\<lparr> ur_status := Rejected, ur_visible_to_sponsor := False \<rparr>)),
         (snd (rejectUpdate (store_with [pending_update]) 110 ''u1''))
           \<lparr>updates := map (\<lambda>v. if ur_id v = ''u1'' then v\<lparr>ur_updated_at := 210\<rparr> else v)
              (updates (snd (rejectUpdate (store_with [pending_update]) 110 ''u1'')))\<rparr>)"
    by blast
  then have a: "fst (rejectUpdate (snd (rejectUpdate (store_with [pending_update]) 110 ''u1'')) 210 ''u1'') =
     Inr (toAirtableUpdateRecord rejected_update) \<and>
   snd (rejectUpdate (snd (rejectUpdate (store_with [pending_update]) 110 ''u1'')) 210 ''u1'') =
     store_with [rejected_update\<lparr>ur_updated_at := 210\<rparr>]"
    unfolding e
    by (simp add: store_with_def example_store_def pending_update_def rejected_update_def)
  from t h have "map ur_published_at (filter (\<lambda>v. ur_id v = ''u1'')
     (updates (snd (publishUpdate (snd (publishUpdate (store_with [pending_update]) 110 100 ''u1''))
        210 200 ''u1'')))) = [Some 200]"
    by blast
  with a e show ?thesis by blast
qed

subsection \<open>Visibility and review status\<close>

lemma insert_update_cases:
  "insert_update st row = (r, st') \<Longrightarrow>
     (st' = st \<and> r \<noteq> Some (answer row)) \<or>
     (backend st = Healthy \<and> ur_id row \<notin> set (map ur_id (updates st)) \<and>
      ur_update_type row \<in> set update_types \<and>
      r = Some (answer row) \<and> st' = st\<lparr>updates := updates st @ [row]\<rparr>)"
  by (cases "backend st")
     (auto simp: insert_update_def answer_def refuse_def split: if_splits)

lemma createUpdateRequest_Inr:
  assumes "createUpdateRequest st g now childId code = (Inr r, st')"
  shows "\<exists>row. r = toAirtableUpdateRecord row \<and> st' = st\<lparr>updates := updates st @ [row]\<rparr> \<and>
           backend st = Healthy \<and> ur_id row = gen_id g \<and> gen_id g \<notin> set (map ur_id (updates st)) \<and>
           ur_child_id row = childId \<and> ur_status row = Pending_Review \<and>
           \<not> ur_visible_to_sponsor row \<and> ur_published_at row = None"
  using assms
  by (cases "backend st")
     (auto simp: createUpdateRequest_def insert_update_def answer_def refuse_def
        UPDATE_STATUS_PENDING_REVIEW_def split: if_splits)

lemma submitUpdate_Inr:
  assumes "submitUpdate st g now d = (Inr r, st')"
  shows "\<exists>row. r = toAirtableUpdateRecord row \<and> st' = st\<lparr>updates := updates st @ [row]\<rparr> \<and>
           backend st = Healthy \<and> ur_id row = gen_id g \<and> gen_id g \<notin> set (map ur_id (updates st)) \<and>
           ur_child_id row = su_childId d \<and> ur_status row = Pending_Review \<and>
           \<not> ur_visible_to_sponsor row \<and> ur_published_at row = None"
  using assms
  by (cases "backend st")
     (auto simp: submitUpdate_def insert_update_def answer_def refuse_def
        UPDATE_STATUS_PENDING_REVIEW_def split: if_splits)

lemma createUpdateRequest_invariant:
  "visibility_invariant st \<Longrightarrow> visibility_invariant (snd (createUpdateRequest st g now childId code))"
  by (cases "backend st")
     (auto simp: createUpdateRequest_def insert_update_def answer_def refuse_def
        visibility_invariant_def UPDATE_STATUS_PENDING_REVIEW_def split: if_splits)

lemma submitUpdate_invariant:
  "visibility_invariant st \<Longrightarrow> visibility_invariant (snd (submitUpdate st g now d))"
  by (cases "backend st")
     (auto simp: submitUpdate_def insert_update_def answer_def refuse_def
        visibility_invariant_def UPDATE_STATUS_PENDING_REVIEW_def split: if_splits)

lemma publishUpdate_invariant:
  "visibility_invariant st \<Longrightarrow> visibility_invariant (snd (publishUpdate st t now i))"
proof (cases "backend st = Healthy")
  case True
  assume "visibility_invariant st"
  with True show ?thesis
    by (auto simp: publishUpdate_Healthy visibility_invariant_def list_all_iff)
next
  case False
  assume "visibility_invariant st"
  with publishUpdate_not_Healthy [OF False] show ?thesis by simp
qed

lemma rejectUpdate_invariant:
  "visibility_invariant st \<Longrightarrow> visibility_invariant (snd (rejectUpdate st t i))"
proof (cases "backend st = Healthy")
  case True
  assume "visibility_invariant st"
  with True show ?thesis
    by (auto simp: rejectUpdate_Healthy visibility_invariant_def list_all_iff)
next
  case False
  assume "visibility_invariant st"
  with rejectUpdate_not_Healthy [OF False] show ?thesis by simp
qed

lemma apply_op_invariant:
  "visibility_invariant st \<Longrightarrow> visibility_invariant (apply_op st op)"
  by (cases op)
     (simp_all add: createUpdateRequest_invariant submitUpdate_invariant
        publishUpdate_invariant rejectUpdate_invariant, simp add: visibility_invariant_def)

lemma foldl_apply_op_invariant:
  "visibility_invariant st \<Longrightarrow> visibility_invariant (foldl apply_op st ops)"
  by (induction ops arbitrary: st) (simp_all add: apply_op_invariant)

lemma publishUpdate_Inr:
  assumes "publishUpdate st t now i = (Inr r, st')"
  shows "\<exists>u. backend st = Healthy \<and> filter (\<lambda>v. ur_id v = i) (updates st) = [u] \<and>
           r = toAirtableUpdateRecord
                 (u\<lparr> ur_status := Published, ur_visible_to_sponsor := True, ur_published_at := Some now,
                    ur_updated_at := t \<rparr>) \<and>
           st' = st\<lparr>updates := map (\<lambda>v. if ur_id v = i
            then v\<lparr> ur_status := Published, ur_visible_to_sponsor := True,
                    ur_published_at := Some now,
                    ur_updated_at := t \<rparr> else v) (updates st)\<rparr>"
proof (cases "backend st = Healthy")
  case True
  with assms show ?thesis
    by (auto simp: publishUpdate_Healthy split: list.splits)
next
  case False
  with publishUpdate_not_Healthy [OF False, of t now i] assms show ?thesis by auto
qed

lemma rejectUpdate_Inr:
  assumes "rejectUpdate st t i = (Inr r, st')"
  shows "\<exists>u. backend st = Healthy \<and> filter (\<lambda>v. ur_id v = i) (updates st) = [u] \<and>
           r = toAirtableUpdateRecord (u\<lparr> ur_status := Rejected, ur_visible_to_sponsor := False,
                    ur_updated_at := t \<rparr>) \<and>
           st' = st\<lparr>updates := map (\<lambda>v. if ur_id v = i
            then v\<lparr> ur_status := Rejected, ur_visible_to_sponsor := False,
                    ur_updated_at := t \<rparr> else v) (updates st)\<rparr>"
proof (cases "backend st = Healthy")
  case True
  with assms show ?thesis
    by (auto simp: rejectUpdate_Healthy split: list.splits)
next
  case False
  with rejectUpdate_not_Healthy [OF False, of t i] assms show ?thesis by auto
qed


lemma publishUpdate_Inr_store:
  "publishUpdate st t now i = (Inr r, st') \<Longrightarrow>
   updates st' = map (\<lambda>v. if ur_id v = i
      then v\<lparr> ur_status := Published, ur_visible_to_sponsor := True,
              ur_published_at := Some now,
                    ur_updated_at := t \<rparr> else v) (updates st)"
  by (drule publishUpdate_Inr) (elim exE conjE, simp)

lemma rejectUpdate_Inr_store:
  "rejectUpdate st t i = (Inr r, st') \<Longrightarrow>
   updates st' = map (\<lambda>v. if ur_id v = i
      then v\<lparr> ur_status := Rejected, ur_visible_to_sponsor := False,
                    ur_updated_at := t \<rparr> else v) (updates st)"
  by (drule rejectUpdate_Inr) (elim exE conjE, simp)

lemma map_if_id_all:
  assumes "\<And>v. P (f v)"
  shows "\<forall>u \<in> set (map (\<lambda>v. if ur_id v = i then f v else v) xs). ur_id u = i \<longrightarrow> P u"
  by (induction xs) (simp_all add: assms)

lemma publishUpdate_Inr_fields:
  assumes a: "publishUpdate st t now i = (Inr r, st')"
  shows "uf_Status (aur_fields r) = Published \<and> uf_VisibleToSponsor (aur_fields r) \<and>
      (\<forall>u \<in> set (updates st'). ur_id u = i \<longrightarrow>
         ur_status u = Published \<and> ur_visible_to_sponsor u)"
proof -
  from publishUpdate_Inr [OF a] obtain u where u:
    "r = toAirtableUpdateRecord
           (u\<lparr> ur_status := Published, ur_visible_to_sponsor := True, ur_published_at := Some now,
                    ur_updated_at := t \<rparr>)"
    by blast
  have "\<forall>u \<in> set (updates st'). ur_id u = i \<longrightarrow> ur_status u = Published \<and> ur_visible_to_sponsor u"
    unfolding publishUpdate_Inr_store [OF a] by (rule map_if_id_all) simp
  with u show ?thesis by (simp add: toAirtableUpdateRecord_status)
qed

lemma rejectUpdate_Inr_fields:
  assumes a: "rejectUpdate st t i = (Inr r, st')"
  shows "uf_Status (aur_fields r) = Rejected \<and> \<not> uf_VisibleToSponsor (aur_fields r) \<and>
      (\<forall>u \<in> set (updates st'). ur_id u = i \<longrightarrow>
         ur_status u = Rejected \<and> \<not> ur_visible_to_sponsor u)"
proof -
  from rejectUpdate_Inr [OF a] obtain u where u:
    "r = toAirtableUpdateRecord (u\<lparr> ur_status := Rejected, ur_visible_to_sponsor := False,
                    ur_updated_at := t \<rparr>)"
    by blast
  have "\<forall>u \<in> set (updates st'). ur_id u = i \<longrightarrow> ur_status u = Rejected \<and> \<not> ur_visible_to_sponsor u"
    unfolding rejectUpdate_Inr_store [OF a] by (rule map_if_id_all) simp
  with u show ?thesis by (simp add: toAirtableUpdateRecord_status)
qed

lemma createUpdateRequest_Inr_fields:
  assumes a: "createUpdateRequest st g now childId code = (Inr r, st')"
  shows "uf_Status (aur_fields r) = Pending_Review \<and> \<not> uf_VisibleToSponsor (aur_fields r) \<and>
      (\<exists>row. updates st' = updates st @ [row] \<and> ur_id row = aur_id r \<and>
         ur_status row = Pending_Review \<and> \<not> ur_visible_to_sponsor row)"
  using createUpdateRequest_Inr [OF a]
  by (elim exE conjE) (simp add: toAirtableUpdateRecord_status)

lemma submitUpdate_Inr_fields:
  assumes a: "submitUpdate st g now d = (Inr r, st')"
  shows "uf_Status (aur_fields r) = Pending_Review \<and> \<not> uf_VisibleToSponsor (aur_fields r) \<and>
      (\<exists>row. updates st' = updates st @ [row] \<and> ur_id row = aur_id r \<and>
         ur_status row = Pending_Review \<and> \<not> ur_visible_to_sponsor row)"
  using submitUpdate_Inr [OF a]
  by (elim exE conjE) (simp add: toAirtableUpdateRecord_status)

lemma createUpdateRequest_Healthy:
  assumes "backend st = Healthy" "gen_id g \<notin> set (map ur_id (updates st))"
  shows "\<exists>row. createUpdateRequest st g now childId code =
             (Inr (toAirtableUpdateRecord row), st\<lparr>updates := updates st @ [row]\<rparr>) \<and>
           ur_id row = gen_id g \<and> ur_child_id row = childId \<and>
           ur_status row = Pending_Review \<and> \<not> ur_visible_to_sponsor row"
  using assms
  by (intro exI [of _ "\<lparr> ur_id = gen_id g, ur_child_id = childId, ur_sponsor_code = Some code,
          ur_update_type = ''Progress Report'', ur_title = ''Update Requested'',
          ur_content = ''Sponsor requested a new update.'', ur_photos = None,
          ur_status = Pending_Review, ur_visible_to_sponsor = False,
          ur_requested_by_sponsor = Some True, ur_requested_at = Some now,
          ur_published_at = None, ur_submitted_by = None, ur_submitted_at = None,
          ur_created_at = gen_now g, ur_updated_at = gen_now g \<rparr>"])
     (simp add: createUpdateRequest_def insert_update_def answer_def update_types_def
      UPDATE_STATUS_PENDING_REVIEW_def)

lemma submitUpdate_Healthy:
  assumes "backend st = Healthy" "gen_id g \<notin> set (map ur_id (updates st))"
    "su_updateType d \<in> set update_types"
  shows "\<exists>row. submitUpdate st g now d =
             (Inr (toAirtableUpdateRecord row), st\<lparr>updates := updates st @ [row]\<rparr>) \<and>
           ur_id row = gen_id g \<and> ur_child_id row = su_childId d \<and>
           ur_status row = Pending_Review \<and> \<not> ur_visible_to_sponsor row"
  using assms
  by (intro exI [of _ "\<lparr> ur_id = gen_id g, ur_child_id = su_childId d,
          ur_sponsor_code = or_undefined (su_sponsorCode d),
          ur_update_type = su_updateType d, ur_title = su_title d,
          ur_content = su_content d, ur_photos = None,
          ur_status = Pending_Review, ur_visible_to_sponsor = False,
          ur_requested_by_sponsor = Some False, ur_requested_at = None,
          ur_published_at = None, ur_submitted_by = Some (su_submittedBy d),
          ur_submitted_at = Some now,
          ur_created_at = gen_now g, ur_updated_at = gen_now g \<rparr>"])
     (simp add: submitUpdate_def insert_update_def answer_def
      UPDATE_STATUS_PENDING_REVIEW_def)

lemma publishUpdate_sets:
  assumes "backend st = Healthy" "filter (\<lambda>v. ur_id v = i) (updates st) = [u]"
  shows "\<exists>r st'. publishUpdate st t now i = (Inr r, st') \<and>
           uf_Status (aur_fields r) = Published \<and> uf_VisibleToSponsor (aur_fields r) \<and>
           filter (\<lambda>v. ur_id v = i) (updates st') =
             [u\<lparr> ur_status := Published, ur_visible_to_sponsor := True, ur_published_at := Some now, ur_updated_at := t \<rparr>]"
proof -
  let ?f = "\<lambda>u. u\<lparr> ur_status := Published, ur_visible_to_sponsor := True, ur_published_at := Some now, ur_updated_at := t \<rparr>"
  have f: "filter (\<lambda>u. ur_id u = i) (map (\<lambda>u. if ur_id u = i then ?f u else u) (updates st)) =
         map ?f (filter (\<lambda>u. ur_id u = i) (updates st))"
    by (rule filter_map_id) simp
  from assms f show ?thesis
    by (simp add: publishUpdate_Healthy toAirtableUpdateRecord_status)
qed

lemma rejectUpdate_sets:
  assumes "backend st = Healthy" "filter (\<lambda>v. ur_id v = i) (updates st) = [u]"
  shows "\<exists>r st'. rejectUpdate st t i = (Inr r, st') \<and>
           uf_Status (aur_fields r) = Rejected \<and> \<not> uf_VisibleToSponsor (aur_fields r) \<and>
           filter (\<lambda>v. ur_id v = i) (updates st') =
             [u\<lparr> ur_status := Rejected, ur_visible_to_sponsor := False, ur_updated_at := t \<rparr>]"
proof -
  let ?f = "\<lambda>u. u\<lparr> ur_status := Rejected, ur_visible_to_sponsor := False, ur_updated_at := t \<rparr>"
  have f: "filter (\<lambda>u. ur_id u = i) (map (\<lambda>u. if ur_id u = i then ?f u else u) (updates st)) =
         map ?f (filter (\<lambda>u. ur_id u = i) (updates st))"
    by (rule filter_map_id) simp
  from assms f show ?thesis
    by (simp add: rejectUpdate_Healthy toAirtableUpdateRecord_status)
qed

text \<open>
  Claim C2. An update is visible to the sponsor exactly when its review status is
  Published: the empty table has this property, and every history of lifecycle
  operations (with the backend failing or recovering in between) keeps it. On a store
  that answers, \<open>createUpdateRequest\<close> and \<open>submitUpdate\<close> (with an update type of the
  schema's list) succeed for a fresh id and create a row that is Pending Review and not
  visible; \<open>publishUpdate\<close> on the id of an existing row succeeds and sets that row to
  Published and visible; \<open>rejectUpdate\<close> on it succeeds and sets the row to Rejected
  and not visible. And whenever one of the four returns a record at all, the record and
  the row have that status and visibility.
\<close>

theorem visible_iff_published:
  "visibility_invariant \<lparr> sponsorships = ss, updates = [], backend = b \<rparr> \<and>
   (visibility_invariant st \<longrightarrow> visibility_invariant (foldl apply_op st ops)) \<and>
   (backend st = Healthy \<and> gen_id g \<notin> set (map ur_id (updates st)) \<longrightarrow>
      (\<exists>row. createUpdateRequest st g now childId code =
             (Inr (toAirtableUpdateRecord row), st\<lparr>updates := updates st @ [row]\<rparr>) \<and>
           ur_id row = gen_id g \<and> ur_child_id row = childId \<and>
           ur_status row = Pending_Review \<and> \<not> ur_visible_to_sponsor row)) \<and>
   (backend st = Healthy \<and> gen_id g \<notin> set (map ur_id (updates st)) \<and>
    su_updateType d \<in> set update_types \<longrightarrow>
      (\<exists>row. submitUpdate st g now d =
             (Inr (toAirtableUpdateRecord row), st\<lparr>updates := updates st @ [row]\<rparr>) \<and>
           ur_id row = gen_id g \<and> ur_child_id row = su_childId d \<and>
           ur_status row = Pending_Review \<and> \<not> ur_visible_to_sponsor row)) \<and>
   (backend st = Healthy \<and> filter (\<lambda>v. ur_id v = i) (updates st) = [u] \<longrightarrow>
      (\<exists>r st'. publishUpdate st t now i = (Inr r, st') \<and>
           uf_Status (aur_fields r) = Published \<and> uf_VisibleToSponsor (aur_fields r) \<and>
           filter (\<lambda>v. ur_id v = i) (updates st') =
             [u\<lparr> ur_status := Published, ur_visible_to_sponsor := True, ur_published_at := Some now, ur_updated_at := t \<rparr>])) \<and>
   (backend st = Healthy \<and> filter (\<lambda>v. ur_id v = i) (updates st) = [u] \<longrightarrow>
      (\<exists>r st'. rejectUpdate st t i = (Inr r, st') \<and>
           uf_Status (aur_fields r) = Rejected \<and> \<not> uf_VisibleToSponsor (aur_fields r) \<and>
           filter (\<lambda>v. ur_id v = i) (updates st') =
             [u\<lparr> ur_status := Rejected, ur_visible_to_sponsor := False, ur_updated_at := t \<rparr>])) \<and>
   (createUpdateRequest st g now childId code = (Inr r, st') \<longrightarrow>
      uf_Status (aur_fields r) = Pending_Review \<and> \<not> uf_VisibleToSponsor (aur_fields r) \<and>
      (\<exists>row. updates st' = updates st @ [row] \<and> ur_id row = aur_id r \<and>
         ur_status row = Pending_Review \<and> \<not> ur_visible_to_sponsor row)) \<and>
   (submitUpdate st g now d = (Inr r, st') \<longrightarrow>
      uf_Status (aur_fields r) = Pending_Review \<and> \<not> uf_VisibleToSponsor (aur_fields r) \<and>
      (\<exists>row. updates st' = updates st @ [row] \<and> ur_id row = aur_id r \<and>
         ur_status row = Pending_Review \<and> \<not> ur_visible_to_sponsor row)) \<and>
   (publishUpdate st t now i = (Inr r, st') \<longrightarrow>
      uf_Status (aur_fields r) = Published \<and> uf_VisibleToSponsor (aur_fields r) \<and>
      (\<forall>u \<in> set (updates st'). ur_id u = i \<longrightarrow>
         ur_status u = Published \<and> ur_visible_to_sponsor u)) \<and>
   (rejectUpdate st t i = (Inr r, st') \<longrightarrow>
      uf_Status (aur_fields r) = Rejected \<and> \<not> uf_VisibleToSponsor (aur_fields r) \<and>
      (\<forall>u \<in> set (updates st'). ur_id u = i \<longrightarrow>
         ur_status u = Rejected \<and> \<not> ur_visible_to_sponsor u))"
proof (intro conjI)
  show "visibility_invariant \<lparr> sponsorships = ss, updates = [], backend = b \<rparr>"
    by (simp add: visibility_invariant_def)
  show "visibility_invariant st \<longrightarrow> visibility_invariant (foldl apply_op st ops)"
    by (rule impI) (rule foldl_apply_op_invariant)
  show "backend st = Healthy \<and> gen_id g \<notin> set (map ur_id (updates st)) \<longrightarrow>
      (\<exists>row. createUpdateRequest st g now childId code =
             (Inr (toAirtableUpdateRecord row), st\<lparr>updates := updates st @ [row]\<rparr>) \<and>
           ur_id row = gen_id g \<and> ur_child_id row = childId \<and>
           ur_status row = Pending_Review \<and> \<not> ur_visible_to_sponsor row)"
    by (rule impI, elim conjE) (rule createUpdateRequest_Healthy)
  show "backend st = Healthy \<and> gen_id g \<notin> set (map ur_id (updates st)) \<and>
    su_updateType d \<in> set update_types \<longrightarrow>
      (\<exists>row. submitUpdate st g now d =
             (Inr (toAirtableUpdateRecord row), st\<lparr>updates := updates st @ [row]\<rparr>) \<and>
           ur_id row = gen_id g \<and> ur_child_id row = su_childId d \<and>
           ur_status row = Pending_Review \<and> \<not> ur_visible_to_sponsor row)"
    by (rule impI, elim conjE) (rule submitUpdate_Healthy)
  show "backend st = Healthy \<and> filter (\<lambda>v. ur_id v = i) (updates st) = [u] \<longrightarrow>
      (\<exists>r st'. publishUpdate st t now i = (Inr r, st') \<and>
           uf_Status (aur_fields r) = Published \<and> uf_VisibleToSponsor (aur_fields r) \<and>
           filter (\<lambda>v. ur_id v = i) (updates st') =
             [u\<lparr> ur_status := Published, ur_visible_to_sponsor := True, ur_published_at := Some now, ur_updated_at := t \<rparr>])"
    by (rule impI, elim conjE) (rule publishUpdate_sets)
  show "backend st = Healthy \<and> filter (\<lambda>v. ur_id v = i) (updates st) = [u] \<longrightarrow>
      (\<exists>r st'. rejectUpdate st t i = (Inr r, st') \<and>
           uf_Status (aur_fields r) = Rejected \<and> \<not> uf_VisibleToSponsor (aur_fields r) \<and>
           filter (\<lambda>v. ur_id v = i) (updates st') =
             [u\<lparr> ur_status := Rejected, ur_visible_to_sponsor := False, ur_updated_at := t \<rparr>])"
    by (rule impI, elim conjE) (rule rejectUpdate_sets)
  show "createUpdateRequest st g now childId code = (Inr r, st') \<longrightarrow>
      uf_Status (aur_fields r) = Pending_Review \<and> \<not> uf_VisibleToSponsor (aur_fields r) \<and>
      (\<exists>row. updates st' = updates st @ [row] \<and> ur_id row = aur_id r \<and>
         ur_status row = Pending_Review \<and> \<not> ur_visible_to_sponsor row)"
    by (rule impI) (rule createUpdateRequest_Inr_fields)
  show "submitUpdate st g now d = (Inr r, st') \<longrightarrow>
      uf_Status (aur_fields r) = Pending_Review \<and> \<not> uf_VisibleToSponsor (aur_fields r) \<and>
      (\<exists>row. updates st' = updates st @ [row] \<and> ur_id row = aur_id r \<and>
         ur_status row = Pending_Review \<and> \<not> ur_visible_to_sponsor row)"
    by (rule impI) (rule submitUpdate_Inr_fields)
  show "publishUpdate st t now i = (Inr r, st') \<longrightarrow>
      uf_Status (aur_fields r) = Published \<and> uf_VisibleToSponsor (aur_fields r) \<and>
      (\<forall>u \<in> set (updates st'). ur_id u = i \<longrightarrow>
         ur_status u = Published \<and> ur_visible_to_sponsor u)"
    by (rule impI) (rule publishUpdate_Inr_fields)
  show "rejectUpdate st t i = (Inr r, st') \<longrightarrow>
      uf_Status (aur_fields r) = Rejected \<and> \<not> uf_VisibleToSponsor (aur_fields r) \<and>
      (\<forall>u \<in> set (updates st'). ur_id u = i \<longrightarrow>
         ur_status u = Rejected \<and> \<not> ur_visible_to_sponsor u)"
    by (rule impI) (rule rejectUpdate_Inr_fields)
qed

lemma example_createUpdateRequest:
  "createUpdateRequest example_store example_generated 50 ''c1'' ''BAN-2025-104'' =
     (Inr (toAirtableUpdateRecord requested_update), store_with [requested_update])"
  by (simp add: createUpdateRequest_def insert_update_def example_store_def example_generated_def
      requested_update_def store_with_def answer_def update_types_def
      UPDATE_STATUS_PENDING_REVIEW_def)

lemma example_submitUpdate:
  "submitUpdate example_store \<lparr> gen_id = ''u1'', gen_now = 20 \<rparr> 20 example_submission =
     (Inr (toAirtableUpdateRecord pending_update), store_with [pending_update])"
  by (simp add: submitUpdate_def insert_update_def example_store_def example_submission_def
      pending_update_def store_with_def answer_def update_types_def or_undefined_def falsy_def
      UPDATE_STATUS_PENDING_REVIEW_def)

lemma example_publishUpdate:
  "publishUpdate (store_with [requested_update]) 71 70 ''u2'' =
     (Inr (toAirtableUpdateRecord (requested_update\<lparr> ur_status := Published, ur_visible_to_sponsor := True, ur_published_at := Some 70, ur_updated_at := 71 \<rparr>)),
      store_with [requested_update\<lparr> ur_status := Published, ur_visible_to_sponsor := True, ur_published_at := Some 70, ur_updated_at := 71 \<rparr>])"
  by (simp add: publishUpdate_Healthy store_with_def example_store_def requested_update_def)

lemma example_rejectUpdate:
  "rejectUpdate (store_with [pending_update]) 80 ''u1'' =
     (Inr (toAirtableUpdateRecord (rejected_update\<lparr>ur_updated_at := 80\<rparr>)),
      store_with [rejected_update\<lparr>ur_updated_at := 80\<rparr>])"
  by (simp add: rejectUpdate_Healthy store_with_def example_store_def pending_update_def
      rejected_update_def)

theorem visible_iff_published_witness:
  "visibility_invariant (foldl apply_op example_store
     [CreateUpdateRequest example_generated 50 ''c1'' ''BAN-2025-104'',
      PublishUpdate 71 70 ''u2'', RejectUpdate 80 ''u2'']) \<and>
   (\<exists>row. createUpdateRequest example_store example_generated 50 ''c1'' ''BAN-2025-104'' =
           (Inr (toAirtableUpdateRecord row), store_with [row]) \<and>
         ur_id row = ''u2'' \<and> ur_status row = Pending_Review \<and> \<not> ur_visible_to_sponsor row) \<and>
   (\<exists>row. submitUpdate example_store \<lparr> gen_id = ''u1'', gen_now = 20 \<rparr> 20 example_submission =
           (Inr (toAirtableUpdateRecord row), store_with [row]) \<and>
         ur_id row = ''u1'' \<and> ur_status row = Pending_Review \<and> \<not> ur_visible_to_sponsor row) \<and>
   (\<exists>r st'. publishUpdate (store_with [requested_update]) 71 70 ''u2'' = (Inr r, st') \<and>
         uf_Status (aur_fields r) = Published \<and> uf_VisibleToSponsor (aur_fields r) \<and>
         filter (\<lambda>v. ur_id v = ''u2'') (updates st') =
           [requested_update\<lparr> ur_status := Published, ur_visible_to_sponsor := True, ur_published_at := Some 70, ur_updated_at := 71 \<rparr>]) \<and>
   (\<exists>r st'. rejectUpdate (store_with [pending_update]) 80 ''u1'' = (Inr r, st') \<and>
         uf_Status (aur_fields r) = Rejected \<and> \<not> uf_VisibleToSponsor (aur_fields r) \<and>
         filter (\<lambda>v. ur_id v = ''u1'') (updates st') =
           [pending_update\<lparr> ur_status := Rejected, ur_visible_to_sponsor := False, ur_updated_at := 80 \<rparr>]) \<and>
   uf_Status (aur_fields (toAirtableUpdateRecord requested_update)) = Pending_Review \<and>
   \<not> uf_VisibleToSponsor (aur_fields (toAirtableUpdateRecord requested_update))"
proof -
  note t = visible_iff_published [THEN conjunct2]
  have i: "visibility_invariant example_store"
    by (simp add: visibility_invariant_def example_store_def)
  from i t [THEN conjunct1, of example_store]
  have a: "visibility_invariant (foldl apply_op example_store
     [CreateUpdateRequest example_generated 50 ''c1'' ''BAN-2025-104'',
      PublishUpdate 71 70 ''u2'', RejectUpdate 80 ''u2''])" by blast
  have s: "\<And>row. example_store\<lparr>updates := updates example_store @ [row]\<rparr> = store_with [row]"
    by (simp add: store_with_def example_store_def)
  have hc: "backend example_store = Healthy \<and>
        gen_id example_generated \<notin> set (map ur_id (updates example_store))"
    by (simp add: example_store_def)
  have g: "gen_id example_generated = ''u2''" by (simp add: example_generated_def)
  from hc t [THEN conjunct2, THEN conjunct1, of example_store example_generated]
  have b: "\<exists>row. createUpdateRequest example_store example_generated 50 ''c1'' ''BAN-2025-104'' =
           (Inr (toAirtableUpdateRecord row), store_with [row]) \<and>
         ur_id row = ''u2'' \<and> ur_status row = Pending_Review \<and> \<not> ur_visible_to_sponsor row"
    unfolding s g by blast
  have hs: "backend example_store = Healthy \<and>
        gen_id \<lparr> gen_id = ''u1'', gen_now = 20 \<rparr> \<notin> set (map ur_id (updates example_store)) \<and>
        su_updateType example_submission \<in> set update_types"
    by (simp add: example_store_def example_submission_def update_types_def)
  have g1: "gen_id \<lparr> gen_id = ''u1'', gen_now = 20 \<rparr> = ''u1''" by simp
  from hs t [THEN conjunct2, THEN conjunct2, THEN conjunct1,
             of example_store "\<lparr> gen_id = ''u1'', gen_now = 20 \<rparr>" example_submission]
  have c: "\<exists>row. submitUpdate example_store \<lparr> gen_id = ''u1'', gen_now = 20 \<rparr> 20 example_submission =
           (Inr (toAirtableUpdateRecord row), store_with [row]) \<and>
         ur_id row = ''u1'' \<and> ur_status row = Pending_Review \<and> \<not> ur_visible_to_sponsor row"
    unfolding s g1 by blast
  have hp: "backend (store_with [requested_update]) = Healthy \<and>
        filter (\<lambda>v. ur_id v = ''u2'') (updates (store_with [requested_update])) = [requested_update]"
    by (simp add: store_with_def example_store_def requested_update_def)
  from hp t [THEN conjunct2, THEN conjunct2, THEN conjunct2, THEN conjunct1,
             of "store_with [requested_update]" "''u2''" requested_update]
  have d: "\<exists>r st'. publishUpdate (store_with [requested_update]) 71 70 ''u2'' = (Inr r, st') \<and>
         uf_Status (aur_fields r) = Published \<and> uf_VisibleToSponsor (aur_fields r) \<and>
         filter (\<lambda>v. ur_id v = ''u2'') (updates st') =
           [requested_update\<lparr> ur_status := Published, ur_visible_to_sponsor := True, ur_published_at := Some 70, ur_updated_at := 71 \<rparr>]"
    by blast
  have hr: "backend (store_with [pending_update]) = Healthy \<and>
        filter (\<lambda>v. ur_id v = ''u1'') (updates (store_with [pending_update])) = [pending_update]"
    by (simp add: store_with_def example_store_def pending_update_def)
  from hr t [THEN conjunct2, THEN conjunct2, THEN conjunct2, THEN conjunct2, THEN conjunct1,
             of "store_with [pending_update]" "''u1''" pending_update]
  have e: "\<exists>r st'. rejectUpdate (store_with [pending_update]) 80 ''u1'' = (Inr r, st') \<and>
         uf_Status (aur_fields r) = Rejected \<and> \<not> uf_VisibleToSponsor (aur_fields r) \<and>
         filter (\<lambda>v. ur_id v = ''u1'') (updates st') =
           [pending_update\<lparr> ur_status := Rejected, ur_visible_to_sponsor := False, ur_updated_at := 80 \<rparr>]"
    by blast
  from example_createUpdateRequest
    t [THEN conjunct2, THEN conjunct2, THEN conjunct2, THEN conjunct2, THEN conjunct2, THEN conjunct1]
  have f: "uf_Status (aur_fields (toAirtableUpdateRecord requested_update)) = Pending_Review \<and>
   \<not> uf_VisibleToSponsor (aur_fields (toAirtableUpdateRecord requested_update))" by blast
  from a b c d e f show ?thesis by blast
qed

subsection \<open>The list of updates of a child\<close>

lemma newest_first_total: "newest_first a b \<or> newest_first b a"
  by (auto simp: newest_first_def split: option.splits)

lemma newest_first_trans: "newest_first a b \<Longrightarrow> newest_first b c \<Longrightarrow> newest_first a c"
  by (auto simp: newest_first_def split: option.splits)

lemma mset_insert_desc: "mset (insert_desc u vs) = add_mset u (mset vs)"
  by (induction vs) simp_all

lemma mset_order_published_at_desc: "mset (order_published_at_desc rows) = mset rows"
  by (induction rows) (simp_all add: order_published_at_desc_def mset_insert_desc)

lemma set_insert_desc: "set (insert_desc u vs) = insert u (set vs)"
  by (induction vs) auto

lemma sorted_insert_desc:
  "sorted_wrt (\<lambda>a b. newest_first (ur_published_at a) (ur_published_at b)) vs \<Longrightarrow>
   sorted_wrt (\<lambda>a b. newest_first (ur_published_at a) (ur_published_at b)) (insert_desc u vs)"
proof (induction vs)
  case Nil
  then show ?case by simp
next
  case (Cons v vs)
  show ?case
  proof (cases "newest_first (ur_published_at u) (ur_published_at v)")
    case True
    with Cons.prems show ?thesis by (auto intro: newest_first_trans)
  next
    case False
    then have "newest_first (ur_published_at v) (ur_published_at u)"
      using newest_first_total by blast
    with False Cons show ?thesis by (auto simp: set_insert_desc)
  qed
qed

lemma sorted_order_published_at_desc:
  "sorted_wrt (\<lambda>a b. newest_first (ur_published_at a) (ur_published_at b))
     (order_published_at_desc rows)"
  by (induction rows) (simp_all add: order_published_at_desc_def sorted_insert_desc)

lemma findUpdatesForChild_Healthy:
  "backend st = Healthy \<Longrightarrow>
   findUpdatesForChild st childId =
     Inr (map toAirtableUpdateRecord (order_published_at_desc (filter
       (\<lambda>u. ur_child_id u = childId \<and> ur_status u = Published \<and> ur_visible_to_sponsor u)
       (updates st))))"
  by (simp add: findUpdatesForChild_def reply_def answer_def UPDATE_STATUS_PUBLISHED_def)

lemma set_order_published_at_desc: "set (order_published_at_desc rows) = set rows"
  using mset_order_published_at_desc [of rows] by (rule mset_eq_setD)


lemma findUpdatesForChild_exact:
  assumes "backend st = Healthy"
  shows "\<exists>rows. findUpdatesForChild st childId = Inr (map toAirtableUpdateRecord rows) \<and>
      mset rows = mset (filter
        (\<lambda>u. ur_child_id u = childId \<and> ur_status u = Published \<and> ur_visible_to_sponsor u)
        (updates st)) \<and>
      sorted_wrt (\<lambda>a b. newest_first (ur_published_at a) (ur_published_at b)) rows"
  using findUpdatesForChild_Healthy [OF assms, of childId]
    mset_order_published_at_desc sorted_order_published_at_desc by blast

lemma request_then_publish:
  assumes a: "createUpdateRequest st g now childId code = (Inr r, st1)"
  shows "(\<exists>rs. findUpdatesForChild st1 childId = Inr rs \<and> aur_id r \<notin> set (map aur_id rs)) \<and>
     (\<exists>r' st2 rs. publishUpdate st1 s t (aur_id r) = (Inr r', st2) \<and> aur_id r' = aur_id r \<and>
        uf_PublishedAt (aur_fields r') = Some t \<and>
        findUpdatesForChild st2 childId = Inr rs \<and> r' \<in> set rs)"
proof -
  from createUpdateRequest_Inr [OF a] obtain row where row:
    "r = toAirtableUpdateRecord row" "st1 = st\<lparr>updates := updates st @ [row]\<rparr>"
    "backend st = Healthy" "ur_id row = gen_id g" "gen_id g \<notin> set (map ur_id (updates st))"
    "ur_child_id row = childId" "ur_status row = Pending_Review" by blast
  let ?P = "\<lambda>u. ur_child_id u = childId \<and> ur_status u = Published \<and> ur_visible_to_sponsor u"
  let ?pub = "\<lambda>v. v\<lparr> ur_status := Published, ur_visible_to_sponsor := True, ur_published_at := Some t,
                    ur_updated_at := s \<rparr>"
  have h1: "backend st1 = Healthy" using row by simp
  have id: "aur_id r = gen_id g" using row by (simp add: toAirtableUpdateRecord_status)
  have f1: "filter ?P (updates st1) = filter ?P (updates st)" using row by simp
  have "gen_id g \<notin> ur_id ` set (filter ?P (updates st))" using row(5) by auto
  then have "gen_id g \<notin> set (map aur_id (map toAirtableUpdateRecord
      (order_published_at_desc (filter ?P (updates st1)))))"
    by (simp add: f1 set_order_published_at_desc image_image toAirtableUpdateRecord_status)
  then have first: "\<exists>rs. findUpdatesForChild st1 childId = Inr rs \<and> aur_id r \<notin> set (map aur_id rs)"
    unfolding id findUpdatesForChild_Healthy [OF h1] by blast
  have only: "filter (\<lambda>v. ur_id v = gen_id g) (updates st1) = [row]"
  proof -
    have "filter (\<lambda>v. ur_id v = gen_id g) (updates st) = []"
      using row(5) by (force simp: filter_empty_conv)
    with row show ?thesis by simp
  qed
  let ?st2 = "st1\<lparr>updates := map (\<lambda>v. if ur_id v = gen_id g then ?pub v else v) (updates st1)\<rparr>"
  have p: "publishUpdate st1 s t (gen_id g) = (Inr (toAirtableUpdateRecord (?pub row)), ?st2)"
    by (simp add: publishUpdate_Healthy [OF h1] only)
  have h2: "backend ?st2 = Healthy" using h1 by simp
  have "?pub row \<in> set (updates ?st2)" using row by simp
  moreover have "?P (?pub row)" using row by simp
  ultimately have "?pub row \<in> set (order_published_at_desc (filter ?P (updates ?st2)))"
    by (simp add: set_order_published_at_desc)
  then have mem: "toAirtableUpdateRecord (?pub row) \<in>
      set (map toAirtableUpdateRecord (order_published_at_desc (filter ?P (updates ?st2))))"
    unfolding set_map by (rule imageI)
  have q: "findUpdatesForChild ?st2 childId =
      Inr (map toAirtableUpdateRecord (order_published_at_desc (filter ?P (updates ?st2))))"
    by (rule findUpdatesForChild_Healthy [OF h2])
  have i': "aur_id (toAirtableUpdateRecord (?pub row)) = aur_id r"
    "uf_PublishedAt (aur_fields (toAirtableUpdateRecord (?pub row))) = Some t"
    using row(1,4) by (simp_all add: toAirtableUpdateRecord_status)
  from p have p': "publishUpdate st1 s t (aur_id r) = (Inr (toAirtableUpdateRecord (?pub row)), ?st2)"
    unfolding id .
  from p' i' q mem have "\<exists>r' st2 rs. publishUpdate st1 s t (aur_id r) = (Inr r', st2) \<and>
        aur_id r' = aur_id r \<and> uf_PublishedAt (aur_fields r') = Some t \<and>
        findUpdatesForChild st2 childId = Inr rs \<and> r' \<in> set rs"
    by blast
  with first show ?thesis by blast
qed


text \<open>
  Claim C7. On a store that answers, \<open>findUpdatesForChild\<close> returns exactly the updates
  of the given child whose status is Published and whose visibility flag is true (as a
  multiset: each such row once, and nothing else), ordered newest first by publish time.
  An update created by a sponsor's request is not in the list before it is published, and
  publishing it (which succeeds) puts the published record into the list.
\<close>

theorem findUpdatesForChild_published_newest_first:
  "(backend st = Healthy \<longrightarrow>
      (\<exists>rows. findUpdatesForChild st childId = Inr (map toAirtableUpdateRecord rows) \<and>
         mset rows = mset (filter
           (\<lambda>u. ur_child_id u = childId \<and> ur_status u = Published \<and> ur_visible_to_sponsor u)
           (updates st)) \<and>
         sorted_wrt (\<lambda>a b. newest_first (uf_PublishedAt (aur_fields a)) (uf_PublishedAt (aur_fields b)))
           (map toAirtableUpdateRecord rows))) \<and>
   (createUpdateRequest st g now childId code = (Inr r, st1) \<longrightarrow>
      (\<exists>rs. findUpdatesForChild st1 childId = Inr rs \<and> aur_id r \<notin> set (map aur_id rs)) \<and>
      (\<exists>r' st2 rs. publishUpdate st1 s t (aur_id r) = (Inr r', st2) \<and> aur_id r' = aur_id r \<and>
         uf_PublishedAt (aur_fields r') = Some t \<and>
         findUpdatesForChild st2 childId = Inr rs \<and> r' \<in> set rs))"
proof (intro conjI impI)
  assume "backend st = Healthy"
  from findUpdatesForChild_exact [OF this, of childId]
  show "\<exists>rows. findUpdatesForChild st childId = Inr (map toAirtableUpdateRecord rows) \<and>
         mset rows = mset (filter
           (\<lambda>u. ur_child_id u = childId \<and> ur_status u = Published \<and> ur_visible_to_sponsor u)
           (updates st)) \<and>
         sorted_wrt (\<lambda>a b. newest_first (uf_PublishedAt (aur_fields a)) (uf_PublishedAt (aur_fields b)))
           (map toAirtableUpdateRecord rows)"
    by (simp add: sorted_wrt_map toAirtableUpdateRecord_status)
next
  assume a: "createUpdateRequest st g now childId code = (Inr r, st1)"
  from request_then_publish [OF a, of s t]
  show "\<exists>rs. findUpdatesForChild st1 childId = Inr rs \<and> aur_id r \<notin> set (map aur_id rs)"
    by (rule conjunct1)
  from request_then_publish [OF a, of s t]
  show "\<exists>r' st2 rs. publishUpdate st1 s t (aur_id r) = (Inr r', st2) \<and> aur_id r' = aur_id r \<and>
         uf_PublishedAt (aur_fields r') = Some t \<and>
         findUpdatesForChild st2 childId = Inr rs \<and> r' \<in> set rs"
    by (rule conjunct2)
qed

lemma example_feed_listing:
  "findUpdatesForChild example_feed ''c1'' =
     Inr [toAirtableUpdateRecord later_update, toAirtableUpdateRecord published_update]"
  by (simp add: findUpdatesForChild_Healthy example_feed_def store_with_def example_store_def
      order_published_at_desc_def newest_first_def later_update_def published_update_def
      pending_update_def)

theorem findUpdatesForChild_published_newest_first_witness:
  "findUpdatesForChild example_feed ''c1'' =
     Inr [toAirtableUpdateRecord later_update, toAirtableUpdateRecord published_update] \<and>
   (\<exists>rows. findUpdatesForChild example_feed ''c1'' = Inr (map toAirtableUpdateRecord rows) \<and>
      mset rows = {#published_update, later_update#} \<and>
      sorted_wrt (\<lambda>a b. newest_first (uf_PublishedAt (aur_fields a)) (uf_PublishedAt (aur_fields b)))
        (map toAirtableUpdateRecord rows)) \<and>
   (\<exists>rs. findUpdatesForChild (store_with [requested_update]) ''c1'' = Inr rs \<and>
      ''u2'' \<notin> set (map aur_id rs)) \<and>
   (\<exists>r' st2 rs. publishUpdate (store_with [requested_update]) 71 70 ''u2'' = (Inr r', st2) \<and>
      aur_id r' = ''u2'' \<and> uf_PublishedAt (aur_fields r') = Some 70 \<and>
      findUpdatesForChild st2 ''c1'' = Inr rs \<and> r' \<in> set rs)"
proof -
  note t = findUpdatesForChild_published_newest_first
  have h: "backend example_feed = Healthy"
    by (simp add: example_feed_def store_with_def example_store_def)
  have f: "filter (\<lambda>u. ur_child_id u = ''c1'' \<and> ur_status u = Published \<and> ur_visible_to_sponsor u)
      (updates example_feed) = [published_update, later_update]"
    by (simp add: example_feed_def store_with_def example_store_def later_update_def
        published_update_def pending_update_def)
  from h t [THEN conjunct1, of example_feed "''c1''"]
  have a: "\<exists>rows. findUpdatesForChild example_feed ''c1'' = Inr (map toAirtableUpdateRecord rows) \<and>
      mset rows = {#published_update, later_update#} \<and>
      sorted_wrt (\<lambda>a b. newest_first (uf_PublishedAt (aur_fields a)) (uf_PublishedAt (aur_fields b)))
        (map toAirtableUpdateRecord rows)"
    unfolding f by simp
  have i: "aur_id (toAirtableUpdateRecord requested_update) = ''u2''"
    by (simp add: requested_update_def toAirtableUpdateRecord_status)
  from example_createUpdateRequest
    t [THEN conjunct2, of example_store example_generated 50 "''c1''" "''BAN-2025-104''"
        "toAirtableUpdateRecord requested_update" "store_with [requested_update]" 71 70]
  have b: "(\<exists>rs. findUpdatesForChild (store_with [requested_update]) ''c1'' = Inr rs \<and>
      ''u2'' \<notin> set (map aur_id rs)) \<and>
   (\<exists>r' st2 rs. publishUpdate (store_with [requested_update]) 71 70 ''u2'' = (Inr r', st2) \<and>
      aur_id r' = ''u2'' \<and> uf_PublishedAt (aur_fields r') = Some 70 \<and>
      findUpdatesForChild st2 ''c1'' = Inr rs \<and> r' \<in> set rs)"
    unfolding i by blast
  from example_feed_listing a b show ?thesis by blast
qed

section \<open>Properties of the sponsorship table\<close>

subsection \<open>Request tracking\<close>

lemma tracking_keeps_codes:
  "map sr_sponsor_code (map (\<lambda>r. if sr_id r = i
      then r\<lparr> sr_last_request_at := a, sr_next_request_eligible_at := b,
              sr_updated_at := c \<rparr> else r) rows) =
   map sr_sponsor_code rows"
  by (induction rows) simp_all

lemma updateSponsorshipRequestTracking_Healthy:
  "backend st = Healthy \<Longrightarrow>
   updateSponsorshipRequestTracking st t recordId lastRequestAt nextEligibleAt =
     (Inr (),
      st\<lparr>sponsorships := map (\<lambda>r. if sr_id r = recordId
          then r\<lparr> sr_last_request_at := Some lastRequestAt,
                  sr_next_request_eligible_at := Some nextEligibleAt,
                  sr_updated_at := t \<rparr>
          else r) (sponsorships st)\<rparr>)"
  by (simp add: updateSponsorshipRequestTracking_def update_sponsorships_def answer_def
      tracking_keeps_codes Let_def)

text \<open>
  The claim that the store operation makes one of two request-update calls fail does not
  hold: the sponsorship's next eligible time 50 lies in the past at time 100, the first
  call sets it to 200, and a second call at time 101, when that time lies in the future,
  succeeds all the same and overwrites it.
\<close>

theorem request_tracking_race_counterexample:
  "sr_next_request_eligible_at example_sponsorship = Some 50 \<and>
   fst (updateSponsorshipRequestTracking example_store 100 ''s1'' 100 200) = Inr () \<and>
   map sr_next_request_eligible_at
     (sponsorships (snd (updateSponsorshipRequestTracking example_store 100 ''s1'' 100 200))) = [Some 200] \<and>
   fst (updateSponsorshipRequestTracking
     (snd (updateSponsorshipRequestTracking example_store 100 ''s1'' 100 200)) 101 ''s1'' 101 201) = Inr () \<and>
   map sr_next_request_eligible_at
     (sponsorships (snd (updateSponsorshipRequestTracking
        (snd (updateSponsorshipRequestTracking example_store 100 ''s1'' 100 200)) 101 ''s1'' 101 201))) =
     [Some 201]"
  by (simp add: updateSponsorshipRequestTracking_Healthy example_store_def example_sponsorship_def)

text \<open>
  Claim C8, as amended. \<open>updateSponsorshipRequestTracking\<close> is an unconditional write: on
  a store that answers it reports success and sets \<open>last_request_at\<close> and
  \<open>next_request_eligible_at\<close> of the row with the given id to the given values, whatever
  values the row holds (the store stamps \<open>updated_at\<close> of that row with its own time
  \<open>t\<close>); called a second time for the same sponsorship it succeeds again.
  The write carries no eligibility condition, so the store operation never denies one of
  two request-update calls.
\<close>

theorem request_tracking_unconditional:
  "backend st = Healthy \<longrightarrow>
     fst (updateSponsorshipRequestTracking st t recordId lastRequestAt nextEligibleAt) = Inr () \<and>
     sponsorships (snd (updateSponsorshipRequestTracking st t recordId lastRequestAt nextEligibleAt)) =
       map (\<lambda>r. if sr_id r = recordId
          then r\<lparr> sr_last_request_at := Some lastRequestAt,
                  sr_next_request_eligible_at := Some nextEligibleAt,
                  sr_updated_at := t \<rparr>
          else r) (sponsorships st) \<and>
     fst (updateSponsorshipRequestTracking
       (snd (updateSponsorshipRequestTracking st t recordId lastRequestAt nextEligibleAt))
       t' recordId lastRequestAt' nextEligibleAt') = Inr ()"
  by (simp add: updateSponsorshipRequestTracking_Healthy)

theorem request_tracking_unconditional_witness:
  "fst (updateSponsorshipRequestTracking example_store 100 ''s1'' 100 200) = Inr () \<and>
   sponsorships (snd (updateSponsorshipRequestTracking example_store 100 ''s1'' 100 200)) =
     [example_sponsorship\<lparr> sr_last_request_at := Some 100,
                            sr_next_request_eligible_at := Some 200,
                            sr_updated_at := 100 \<rparr>] \<and>
   fst (updateSponsorshipRequestTracking
     (snd (updateSponsorshipRequestTracking example_store 100 ''s1'' 100 200)) 101 ''s1'' 101 201) = Inr ()"
proof -
  have "backend example_store = Healthy" by (simp add: example_store_def)
  with request_tracking_unconditional [of example_store 100 "''s1''" 100 200 101 101 201]
  show ?thesis by (simp add: example_store_def example_sponsorship_def)
qed

subsection \<open>Sponsor codes\<close>

lemma update_sponsorships_unique:
  assumes u: "codes_unique st"
  shows "codes_unique (snd (update_sponsorships st t recordId change))"
proof (cases "backend st")
  case Healthy
  let ?rows = "map (\<lambda>r. if sr_id r = recordId then (change r)\<lparr>sr_updated_at := t\<rparr> else r)
                 (sponsorships st)"
  show ?thesis
  proof (cases "map sr_sponsor_code ?rows \<noteq> map sr_sponsor_code (sponsorships st) \<and>
                \<not> distinct (map sr_sponsor_code ?rows)")
    case True
    have "snd (update_sponsorships st t recordId change) = st"
      unfolding update_sponsorships_def Let_def Healthy backend.case
      by (subst if_P [OF True]) (rule snd_conv)
    with u show ?thesis by simp
  next
    case False
    have s: "snd (update_sponsorships st t recordId change) = st\<lparr>sponsorships := ?rows\<rparr>"
      unfolding update_sponsorships_def Let_def Healthy backend.case
      by (subst if_not_P [OF False]) (rule snd_conv)
    from False have "map sr_sponsor_code ?rows = map sr_sponsor_code (sponsorships st) \<or>
        distinct (map sr_sponsor_code ?rows)" by blast
    then have "distinct (map sr_sponsor_code ?rows)"
    proof
      assume "map sr_sponsor_code ?rows = map sr_sponsor_code (sponsorships st)"
      with u show ?thesis unfolding codes_unique_def by (simp only:)
    qed
    then show ?thesis unfolding s codes_unique_def by simp
  qed
next
  case (Failing e)
  with u show ?thesis by (simp add: update_sponsorships_def)
next
  case Unconfigured
  with u show ?thesis by (simp add: update_sponsorships_def)
qed

lemma insert_sponsorship_unique:
  "codes_unique st \<Longrightarrow> codes_unique (snd (insert_sponsorship st row))"
  by (cases "backend st") (auto simp: insert_sponsorship_def codes_unique_def)

lemma createSponsorship_snd:
  "snd (createSponsorship st g year n now d) =
   snd (insert_sponsorship st
        \<lparr> sr_id = gen_id g,
          sr_sponsor_code = sponsorCode_of year n,
          sr_sponsor_email = cs_sponsorEmail d,
          sr_sponsor_name = or_undefined (cs_sponsorName d),
          sr_child_id = cs_childId d,
          sr_child_display_name = cs_childDisplayName d,
          sr_child_photo = cs_childPhoto d,
          sr_child_age = or_undefined (cs_childAge d),
          sr_child_location = or_undefined (cs_childLocation d),
          sr_sponsorship_start_date = Some (date_of now),
          sr_auth_status = AUTH_STATUS_ACTIVE,
          sr_status = Some SPONSORSHIP_STATUS_ACTIVE,
          sr_visible_to_sponsor = True,
          sr_last_request_at = None,
          sr_next_request_eligible_at = None,
          sr_created_at = gen_now g,
          sr_updated_at = gen_now g \<rparr>)"
  by (simp add: createSponsorship_def split: prod.splits option.splits)

lemma assignSponsorToChild_snd:
  "snd (assignSponsorToChild st t now recordId sd) =
     snd (update_sponsorships st t recordId
        (\<lambda>r. r\<lparr> sr_sponsor_code := sd_sponsorCode sd,
                 sr_sponsor_email := sd_sponsorEmail sd,
                 sr_auth_status := AUTH_STATUS_ACTIVE,
                 sr_status := Some SPONSORSHIP_STATUS_ACTIVE,
                 sr_visible_to_sponsor := True,
                 sr_sponsorship_start_date := Some (date_of now),
                 sr_sponsor_name :=
                   (if falsy (sd_sponsorName sd) then sr_sponsor_name r else sd_sponsorName sd) \<rparr>))"
  by (simp add: assignSponsorToChild_def split: prod.splits option.splits)

lemma updateSponsorshipRequestTracking_snd:
  "snd (updateSponsorshipRequestTracking st t recordId a b) =
     snd (update_sponsorships st t recordId
        (\<lambda>r. r\<lparr> sr_last_request_at := Some a, sr_next_request_eligible_at := Some b \<rparr>))"
  by (simp add: updateSponsorshipRequestTracking_def split: prod.splits option.splits)

lemma apply_sponsorship_op_unique:
  "codes_unique st \<Longrightarrow> codes_unique (apply_sponsorship_op st op)"
proof (cases op)
  case (CreateSponsorship g year n now d)
  assume "codes_unique st"
  then show ?thesis
    unfolding CreateSponsorship apply_sponsorship_op.simps createSponsorship_snd
    by (rule insert_sponsorship_unique)
next
  case (AssignSponsorToChild t now recordId sd)
  assume "codes_unique st"
  then show ?thesis
    unfolding AssignSponsorToChild apply_sponsorship_op.simps assignSponsorToChild_snd
    by (rule update_sponsorships_unique)
next
  case (UpdateRequestTracking t recordId a b)
  assume "codes_unique st"
  then show ?thesis
    unfolding UpdateRequestTracking apply_sponsorship_op.simps updateSponsorshipRequestTracking_snd
    by (rule update_sponsorships_unique)
next
  case (Outage b)
  assume "codes_unique st"
  then show ?thesis unfolding Outage by (simp add: codes_unique_def)
qed

lemma foldl_apply_sponsorship_op_unique:
  "codes_unique st \<Longrightarrow> codes_unique (foldl apply_sponsorship_op st ops)"
  by (induction ops arbitrary: st) (simp_all add: apply_sponsorship_op_unique)

lemma createSponsorship_Inr:
  assumes "createSponsorship st g year n now d = (Inr r, st')"
  shows "\<exists>row. r = toAirtableSponsorshipRecord row \<and> st' = st\<lparr>sponsorships := sponsorships st @ [row]\<rparr> \<and>
     backend st = Healthy \<and> sr_sponsor_code row = sponsorCode_of year n \<and>
     sponsorCode_of year n \<notin> set (map sr_sponsor_code (sponsorships st)) \<and>
     sr_id row = gen_id g \<and> gen_id g \<notin> set (map sr_id (sponsorships st))"
  using assms
  by (cases "backend st")
     (auto simp: createSponsorship_def insert_sponsorship_def answer_def refuse_def
        split: if_splits)

lemma createSponsorship_taken:
  "backend st = Healthy \<Longrightarrow> sponsorCode_of year n \<in> set (map sr_sponsor_code (sponsorships st)) \<Longrightarrow>
   createSponsorship st g year n now d = (Inl (DatabaseError ''Failed to create sponsorship''), st)"
  by (simp add: createSponsorship_def insert_sponsorship_def refuse_def)

lemma createSponsorship_free:
  assumes "backend st = Healthy" "gen_id g \<notin> set (map sr_id (sponsorships st))"
    "sponsorCode_of year n \<notin> set (map sr_sponsor_code (sponsorships st))"
  shows "\<exists>r row. createSponsorship st g year n now d =
             (Inr r, st\<lparr>sponsorships := sponsorships st @ [row]\<rparr>) \<and>
           sf_SponsorCode (asr_fields r) = sponsorCode_of year n \<and>
           sr_sponsor_code row = sponsorCode_of year n"
  using assms
  by (intro exI [of _ "toAirtableSponsorshipRecord
          \<lparr> sr_id = gen_id g,
          sr_sponsor_code = sponsorCode_of year n,
          sr_sponsor_email = cs_sponsorEmail d,
          sr_sponsor_name = or_undefined (cs_sponsorName d),
          sr_child_id = cs_childId d,
          sr_child_display_name = cs_childDisplayName d,
          sr_child_photo = cs_childPhoto d,
          sr_child_age = or_undefined (cs_childAge d),
          sr_child_location = or_undefined (cs_childLocation d),
          sr_sponsorship_start_date = Some (date_of now),
          sr_auth_status = AUTH_STATUS_ACTIVE,
          sr_status = Some SPONSORSHIP_STATUS_ACTIVE,
          sr_visible_to_sponsor = True,
          sr_last_request_at = None,
          sr_next_request_eligible_at = None,
          sr_created_at = gen_now g,
          sr_updated_at = gen_now g \<rparr>"]
        exI [of _ "\<lparr> sr_id = gen_id g,
          sr_sponsor_code = sponsorCode_of year n,
          sr_sponsor_email = cs_sponsorEmail d,
          sr_sponsor_name = or_undefined (cs_sponsorName d),
          sr_child_id = cs_childId d,
          sr_child_display_name = cs_childDisplayName d,
          sr_child_photo = cs_childPhoto d,
          sr_child_age = or_undefined (cs_childAge d),
          sr_child_location = or_undefined (cs_childLocation d),
          sr_sponsorship_start_date = Some (date_of now),
          sr_auth_status = AUTH_STATUS_ACTIVE,
          sr_status = Some SPONSORSHIP_STATUS_ACTIVE,
          sr_visible_to_sponsor = True,
          sr_last_request_at = None,
          sr_next_request_eligible_at = None,
          sr_created_at = gen_now g,
          sr_updated_at = gen_now g \<rparr>"])
     (simp add: createSponsorship_def insert_sponsorship_def answer_def
        toAirtableSponsorshipRecord_def)

lemma createSponsorship_prefix:
  "\<exists>rest. sponsorships (snd (createSponsorship st g year n now d)) = sponsorships st @ rest"
  unfolding createSponsorship_snd
  by (cases "backend st") (simp_all add: insert_sponsorship_def)

lemma updateSponsorshipRequestTracking_codes:
  "map sr_sponsor_code (sponsorships (snd (updateSponsorshipRequestTracking st t recordId a b))) =
   map sr_sponsor_code (sponsorships st)"
  unfolding updateSponsorshipRequestTracking_snd
  by (cases "backend st") (simp_all add: update_sponsorships_def tracking_keeps_codes Let_def)

lemma consecutive_createSponsorship:
  assumes a: "createSponsorship st g year n now d = (Inr r1, st1)"
    and b: "createSponsorship st1 g' year' n' now' d' = (Inr r2, st2)"
  shows "sf_SponsorCode (asr_fields r1) \<noteq> sf_SponsorCode (asr_fields r2)"
proof -
  from createSponsorship_Inr [OF a] obtain row1 where r1:
    "r1 = toAirtableSponsorshipRecord row1" "st1 = st\<lparr>sponsorships := sponsorships st @ [row1]\<rparr>"
    by blast
  from createSponsorship_Inr [OF b] obtain row2 where r2:
    "r2 = toAirtableSponsorshipRecord row2" "sr_sponsor_code row2 = sponsorCode_of year' n'"
    "sponsorCode_of year' n' \<notin> set (map sr_sponsor_code (sponsorships st1))"
    by blast
  from r1(2) r2(3) have "sponsorCode_of year' n' \<noteq> sr_sponsor_code row1" by simp
  with r2(2) have "sr_sponsor_code row1 \<noteq> sr_sponsor_code row2" by simp
  then show ?thesis unfolding r1(1) r2(1) by (simp add: toAirtableSponsorshipRecord_def)
qed

lemma filter_map_sr_id:
  assumes "\<And>r. sr_id (f r) = sr_id r"
  shows "filter (\<lambda>r. sr_id r = i) (map (\<lambda>r. if sr_id r = i then f r else r) rs) =
         map f (filter (\<lambda>r. sr_id r = i) rs)"
  by (induction rs) (simp_all add: assms)

lemma overwrite_distinct:
  assumes "\<And>r. sr_sponsor_code (f r) = c"
  shows "distinct (map sr_sponsor_code rs) \<Longrightarrow> c \<notin> set (map sr_sponsor_code rs) \<Longrightarrow>
         length (filter (\<lambda>r. sr_id r = i) rs) \<le> 1 \<Longrightarrow>
         distinct (map sr_sponsor_code (map (\<lambda>r. if sr_id r = i then f r else r) rs)) \<and>
         set (map sr_sponsor_code (map (\<lambda>r. if sr_id r = i then f r else r) rs)) \<subseteq>
           insert c (set (map sr_sponsor_code rs))"
proof (induction rs)
  case Nil
  show ?case by simp
next
  case (Cons x xs)
  show ?case
  proof (cases "sr_id x = i")
    case True
    with Cons.prems(3) have "filter (\<lambda>r. sr_id r = i) xs = []" by simp
    then have "\<forall>r \<in> set xs. sr_id r \<noteq> i" by (simp add: filter_empty_conv)
    then have m: "map (\<lambda>r. if sr_id r = i then f r else r) xs = xs"
      by (simp add: map_idI)
    from True Cons.prems(1,2) show ?thesis by (auto simp: m assms)
  next
    case False
    with Cons.prems have p: "distinct (map sr_sponsor_code xs)" "c \<notin> set (map sr_sponsor_code xs)"
      "length (filter (\<lambda>r. sr_id r = i) xs) \<le> 1" by simp_all
    note ih = Cons.IH [OF p]
    from Cons.prems(1,2) have x: "sr_sponsor_code x \<notin> set (map sr_sponsor_code xs)"
      "sr_sponsor_code x \<noteq> c" by auto
    from ih x have "sr_sponsor_code x \<notin>
        set (map sr_sponsor_code (map (\<lambda>r. if sr_id r = i then f r else r) xs))" by blast
    with ih False show ?thesis by auto
  qed
qed

lemma assignSponsorToChild_overwrites:
  assumes h: "backend st = Healthy" and u: "codes_unique st"
    and one: "filter (\<lambda>v. sr_id v = i) (sponsorships st) = [row]"
    and fresh: "sd_sponsorCode sd \<notin> set (map sr_sponsor_code (sponsorships st))"
  shows "\<exists>r st'. assignSponsorToChild st t now i sd = (Inr r, st') \<and>
           sf_SponsorCode (asr_fields r) = sd_sponsorCode sd \<and>
           map sr_sponsor_code (filter (\<lambda>v. sr_id v = i) (sponsorships st')) = [sd_sponsorCode sd]"
proof -
  let ?f = "\<lambda>r. r\<lparr> sr_sponsor_code := sd_sponsorCode sd,
                 sr_sponsor_email := sd_sponsorEmail sd,
                 sr_auth_status := AUTH_STATUS_ACTIVE,
                 sr_status := Some SPONSORSHIP_STATUS_ACTIVE,
                 sr_visible_to_sponsor := True,
                 sr_sponsorship_start_date := Some (date_of now),
                 sr_sponsor_name :=
                   (if falsy (sd_sponsorName sd) then sr_sponsor_name r else sd_sponsorName sd),
                 sr_updated_at := t \<rparr>"
  let ?rows = "map (\<lambda>r. if sr_id r = i then ?f r else r) (sponsorships st)"
  have f: "filter (\<lambda>r. sr_id r = i) ?rows = map ?f (filter (\<lambda>r. sr_id r = i) (sponsorships st))"
    by (rule filter_map_sr_id) simp
  from one have l: "length (filter (\<lambda>r. sr_id r = i) (sponsorships st)) \<le> 1" by simp
  have c: "\<And>r. sr_sponsor_code (?f r) = sd_sponsorCode sd" by simp
  from u have "distinct (map sr_sponsor_code (sponsorships st))" by (simp add: codes_unique_def)
  from overwrite_distinct [of ?f "sd_sponsorCode sd" "sponsorships st" i, OF c this fresh l]
  have dist: "distinct (map sr_sponsor_code ?rows)" by (rule conjunct1)
  have up: "update_sponsorships st t i (\<lambda>r. r\<lparr> sr_sponsor_code := sd_sponsorCode sd,
                 sr_sponsor_email := sd_sponsorEmail sd,
                 sr_auth_status := AUTH_STATUS_ACTIVE,
                 sr_status := Some SPONSORSHIP_STATUS_ACTIVE,
                 sr_visible_to_sponsor := True,
                 sr_sponsorship_start_date := Some (date_of now),
                 sr_sponsor_name :=
                   (if falsy (sd_sponsorName sd) then sr_sponsor_name r else sd_sponsorName sd) \<rparr>) =
      (Some (answer [?f row]), st\<lparr>sponsorships := ?rows\<rparr>)"
    unfolding update_sponsorships_def Let_def h backend.case
    using dist f one by simp
  have e1: "assignSponsorToChild st t now i sd =
      (Inr (toAirtableSponsorshipRecord (?f row)), st\<lparr>sponsorships := ?rows\<rparr>)"
    unfolding assignSponsorToChild_def up
    by (simp add: single_of_def single_def answer_def)
  have e2: "sf_SponsorCode (asr_fields (toAirtableSponsorshipRecord (?f row))) = sd_sponsorCode sd"
    by (simp add: toAirtableSponsorshipRecord_def)
  have e3: "map sr_sponsor_code (filter (\<lambda>v. sr_id v = i)
      (sponsorships (st\<lparr>sponsorships := ?rows\<rparr>))) = [sd_sponsorCode sd]"
    using f one by simp
  show ?thesis
    by (intro exI [of _ "toAirtableSponsorshipRecord (?f row)"]
          exI [of _ "st\<lparr>sponsorships := ?rows\<rparr>"] conjI)
       (rule e1, rule e2, rule e3)
qed

lemma example_code: "sponsorCode_of 2025 450 = ''BAN-2025-550''"
proof -
  have "randomNum 450 = 550" by (simp add: randomNum_def)
  moreover have "decimal 2025 = ''2025''" "decimal 550 = ''550''" by code_simp+
  ultimately show ?thesis by (simp add: sponsorCode_of_def)
qed

lemma example_createSponsorship:
  "createSponsorship example_store \<lparr> gen_id = ''s2'', gen_now = 60 \<rparr> 2025 450 1000
     example_new_sponsor =
   (Inr (toAirtableSponsorshipRecord new_sponsorship), two_sponsorships)"
  by (simp add: createSponsorship_def insert_sponsorship_def example_code example_store_def
      example_sponsorship_def example_new_sponsor_def new_sponsorship_def two_sponsorships_def
      answer_def or_undefined_def falsy_def date_of_def AUTH_STATUS_ACTIVE_def
      SPONSORSHIP_STATUS_ACTIVE_def)

text \<open>
  The claim that a sponsor code never changes once assigned, and that no two records ever
  created carry the same code, fails. \<open>assignSponsorToChild\<close>, given the id of the active
  sponsorship with code BAN-2025-104, succeeds and leaves that record with the code
  BAN-2026-777. And once the record \<open>s2\<close>, created with the code BAN-2025-550, has been
  given another code in this way, a run of \<open>createSponsorship\<close> that draws the same
  number succeeds and gives the code BAN-2025-550 to the new record \<open>s3\<close>.
\<close>

theorem assignSponsorToChild_overwrites_counterexample:
  "map sr_sponsor_code (sponsorships example_store) = [''BAN-2025-104''] \<and>
   sr_status example_sponsorship = Some Status_Active \<and>
   fst (assignSponsorToChild example_store 1001 1000 ''s1'' example_reassignment) =
     Inr (toAirtableSponsorshipRecord
       (example_sponsorship\<lparr> sr_sponsor_code := ''BAN-2026-777'', sr_sponsor_email := ''b@x.com'',
          sr_sponsorship_start_date := Some 0 \<rparr>)) \<and>
   map sr_sponsor_code
     (sponsorships (snd (assignSponsorToChild example_store 1001 1000 ''s1'' example_reassignment))) =
     [''BAN-2026-777''] \<and>
   createSponsorship example_store \<lparr> gen_id = ''s2'', gen_now = 60 \<rparr> 2025 450 1000 example_new_sponsor =
     (Inr (toAirtableSponsorshipRecord new_sponsorship), two_sponsorships) \<and>
   sf_SponsorCode (asr_fields (toAirtableSponsorshipRecord new_sponsorship)) = ''BAN-2025-550'' \<and>
   map sr_sponsor_code
     (sponsorships (snd (assignSponsorToChild two_sponsorships 1001 1000 ''s2'' example_reassignment))) =
     [''BAN-2025-104'', ''BAN-2026-777''] \<and>
   map sr_sponsor_code
     (sponsorships (snd (createSponsorship
        (snd (assignSponsorToChild two_sponsorships 1001 1000 ''s2'' example_reassignment))
        \<lparr> gen_id = ''s3'', gen_now = 70 \<rparr> 2025 450 2000 example_new_sponsor))) =
     [''BAN-2025-104'', ''BAN-2026-777'', ''BAN-2025-550'']"
proof -
  have a: "assignSponsorToChild example_store 1001 1000 ''s1'' example_reassignment =
     (Inr (toAirtableSponsorshipRecord
       (example_sponsorship\<lparr> sr_sponsor_code := ''BAN-2026-777'', sr_sponsor_email := ''b@x.com'',
          sr_sponsorship_start_date := Some 0 \<rparr>)),
      example_store\<lparr>sponsorships :=
        [example_sponsorship\<lparr> sr_sponsor_code := ''BAN-2026-777'', sr_sponsor_email := ''b@x.com'',
          sr_sponsorship_start_date := Some 0, sr_updated_at := 1001 \<rparr>]\<rparr>)"
    by (simp add: assignSponsorToChild_def update_sponsorships_def single_of_def single_def
      answer_def example_store_def example_sponsorship_def example_reassignment_def falsy_def
      date_of_def toAirtableSponsorshipRecord_def AUTH_STATUS_ACTIVE_def
      SPONSORSHIP_STATUS_ACTIVE_def Let_def)
  have b: "snd (assignSponsorToChild two_sponsorships 1001 1000 ''s2'' example_reassignment) =
      example_store\<lparr>sponsorships :=
        [example_sponsorship,
         new_sponsorship\<lparr> sr_sponsor_code := ''BAN-2026-777'',
          sr_sponsorship_start_date := Some 0, sr_updated_at := 1001 \<rparr>]\<rparr>"
    by (simp add: assignSponsorToChild_def update_sponsorships_def single_of_def single_def
      answer_def two_sponsorships_def example_store_def example_sponsorship_def
      new_sponsorship_def example_reassignment_def falsy_def date_of_def
      AUTH_STATUS_ACTIVE_def SPONSORSHIP_STATUS_ACTIVE_def Let_def)
  have c: "map sr_sponsor_code
     (sponsorships (snd (createSponsorship
        (example_store\<lparr>sponsorships :=
        [example_sponsorship,
         new_sponsorship\<lparr> sr_sponsor_code := ''BAN-2026-777'',
          sr_sponsorship_start_date := Some 0, sr_updated_at := 1001 \<rparr>]\<rparr>)
        \<lparr> gen_id = ''s3'', gen_now = 70 \<rparr> 2025 450 2000 example_new_sponsor))) =
     [''BAN-2025-104'', ''BAN-2026-777'', ''BAN-2025-550'']"
    unfolding createSponsorship_snd
    by (simp add: insert_sponsorship_def example_code example_store_def
      example_sponsorship_def new_sponsorship_def)
  have d: "sf_SponsorCode (asr_fields (toAirtableSponsorshipRecord new_sponsorship)) = ''BAN-2025-550''"
    by (simp add: toAirtableSponsorshipRecord_def new_sponsorship_def)
  have e: "map sr_sponsor_code (sponsorships example_store) = [''BAN-2025-104'']"
    "sr_status example_sponsorship = Some Status_Active"
    by (simp_all add: example_store_def example_sponsorship_def)
  show ?thesis
    unfolding a b c
    using d e example_createSponsorship
    by (simp add: example_store_def example_sponsorship_def new_sponsorship_def)
qed

text \<open>
  Claim C9, as amended. At every moment the sponsor codes of the stored sponsorships are
  pairwise different: the empty table has this property and every history of
  \<open>createSponsorship\<close>, \<open>assignSponsorToChild\<close> and \<open>updateSponsorshipRequestTracking\<close>
  keeps it, because the store refuses a write that would give two rows the same code.
  \<open>createSponsorship\<close> builds the code from the year and the number it draws plus 100
  (a number from 100 to 999 for a draw below 900). On a store that answers it succeeds
  when no row holds that code (and the id is fresh), and only then: when a row holds the
  code already it fails with \<open>DatabaseError\<close> and creates nothing (it does not draw
  again). Of two runs one right after the other that both succeed, the codes differ.
  \<open>createSponsorship\<close> keeps the rows that are there, and
  \<open>updateSponsorshipRequestTracking\<close> changes no code; but a stored code is not
  immutable: \<open>assignSponsorToChild\<close>, given the id of a row and a code that no row holds,
  succeeds and overwrites the code of that row.
\<close>

theorem sponsor_codes_unique:
  "codes_unique \<lparr> sponsorships = [], updates = us, backend = b \<rparr> \<and>
   (codes_unique st \<longrightarrow> codes_unique (foldl apply_sponsorship_op st ops)) \<and>
   (n < 900 \<longrightarrow> 100 \<le> randomNum n \<and> randomNum n \<le> 999) \<and>
   (backend st = Healthy \<and> gen_id g \<notin> set (map sr_id (sponsorships st)) \<and>
    sponsorCode_of year n \<notin> set (map sr_sponsor_code (sponsorships st)) \<longrightarrow>
      (\<exists>r row. createSponsorship st g year n now d =
             (Inr r, st\<lparr>sponsorships := sponsorships st @ [row]\<rparr>) \<and>
           sf_SponsorCode (asr_fields r) = sponsorCode_of year n \<and>
           sr_sponsor_code row = sponsorCode_of year n)) \<and>
   (createSponsorship st g year n now d = (Inr r, st') \<longrightarrow>
      sf_SponsorCode (asr_fields r) = sponsorCode_of year n \<and>
      sponsorCode_of year n \<notin> set (map sr_sponsor_code (sponsorships st)) \<and>
      (\<exists>row. sponsorships st' = sponsorships st @ [row] \<and>
         sr_sponsor_code row = sponsorCode_of year n)) \<and>
   (backend st = Healthy \<and> sponsorCode_of year n \<in> set (map sr_sponsor_code (sponsorships st)) \<longrightarrow>
      createSponsorship st g year n now d =
        (Inl (DatabaseError ''Failed to create sponsorship''), st)) \<and>
   (createSponsorship st g year n now d = (Inr r, st') \<and>
    createSponsorship st' g2 year2 n2 now2 d2 = (Inr r2, st2) \<longrightarrow>
      sf_SponsorCode (asr_fields r) \<noteq> sf_SponsorCode (asr_fields r2)) \<and>
   (\<exists>rest. sponsorships (snd (createSponsorship st g year n now d)) = sponsorships st @ rest) \<and>
   map sr_sponsor_code
     (sponsorships (snd (updateSponsorshipRequestTracking st t recordId lastRequestAt nextEligibleAt))) =
     map sr_sponsor_code (sponsorships st) \<and>
   (backend st = Healthy \<and> codes_unique st \<and>
    filter (\<lambda>v. sr_id v = recordId) (sponsorships st) = [row0] \<and>
    sd_sponsorCode sd \<notin> set (map sr_sponsor_code (sponsorships st)) \<longrightarrow>
      (\<exists>r st'. assignSponsorToChild st t now recordId sd = (Inr r, st') \<and>
           sf_SponsorCode (asr_fields r) = sd_sponsorCode sd \<and>
           map sr_sponsor_code (filter (\<lambda>v. sr_id v = recordId) (sponsorships st')) =
             [sd_sponsorCode sd]))"
proof (intro conjI impI)
  show "codes_unique \<lparr> sponsorships = [], updates = us, backend = b \<rparr>"
    by (simp add: codes_unique_def)
next
  assume "codes_unique st"
  then show "codes_unique (foldl apply_sponsorship_op st ops)"
    by (rule foldl_apply_sponsorship_op_unique)
next
  assume "n < 900"
  then show "100 \<le> randomNum n" "randomNum n \<le> 999" by (simp_all add: randomNum_def)
next
  assume "backend st = Healthy \<and> gen_id g \<notin> set (map sr_id (sponsorships st)) \<and>
    sponsorCode_of year n \<notin> set (map sr_sponsor_code (sponsorships st))"
  then show "\<exists>r row. createSponsorship st g year n now d =
             (Inr r, st\<lparr>sponsorships := sponsorships st @ [row]\<rparr>) \<and>
           sf_SponsorCode (asr_fields r) = sponsorCode_of year n \<and>
           sr_sponsor_code row = sponsorCode_of year n"
    by (elim conjE) (rule createSponsorship_free)
next
  assume a: "createSponsorship st g year n now d = (Inr r, st')"
  from createSponsorship_Inr [OF a] obtain row where row:
    "r = toAirtableSponsorshipRecord row" "st' = st\<lparr>sponsorships := sponsorships st @ [row]\<rparr>"
    "sr_sponsor_code row = sponsorCode_of year n"
    "sponsorCode_of year n \<notin> set (map sr_sponsor_code (sponsorships st))" by blast
  from row show "sf_SponsorCode (asr_fields r) = sponsorCode_of year n"
    by (simp add: toAirtableSponsorshipRecord_def)
  from row show "sponsorCode_of year n \<notin> set (map sr_sponsor_code (sponsorships st))" by blast
  from row show "\<exists>row. sponsorships st' = sponsorships st @ [row] \<and>
         sr_sponsor_code row = sponsorCode_of year n" by simp
next
  assume "backend st = Healthy \<and> sponsorCode_of year n \<in> set (map sr_sponsor_code (sponsorships st))"
  then show "createSponsorship st g year n now d =
        (Inl (DatabaseError ''Failed to create sponsorship''), st)"
    using createSponsorship_taken by blast
next
  assume "createSponsorship st g year n now d = (Inr r, st') \<and>
    createSponsorship st' g2 year2 n2 now2 d2 = (Inr r2, st2)"
  then show "sf_SponsorCode (asr_fields r) \<noteq> sf_SponsorCode (asr_fields r2)"
    by (elim conjE) (rule consecutive_createSponsorship)
next
  show "\<exists>rest. sponsorships (snd (createSponsorship st g year n now d)) = sponsorships st @ rest"
    by (rule createSponsorship_prefix)
next
  show "map sr_sponsor_code
     (sponsorships (snd (updateSponsorshipRequestTracking st t recordId lastRequestAt nextEligibleAt))) =
     map sr_sponsor_code (sponsorships st)"
    by (rule updateSponsorshipRequestTracking_codes)
next
  assume "backend st = Healthy \<and> codes_unique st \<and>
    filter (\<lambda>v. sr_id v = recordId) (sponsorships st) = [row0] \<and>
    sd_sponsorCode sd \<notin> set (map sr_sponsor_code (sponsorships st))"
  then show "\<exists>r st'. assignSponsorToChild st t now recordId sd = (Inr r, st') \<and>
           sf_SponsorCode (asr_fields r) = sd_sponsorCode sd \<and>
           map sr_sponsor_code (filter (\<lambda>v. sr_id v = recordId) (sponsorships st')) =
             [sd_sponsorCode sd]"
    by (elim conjE) (rule assignSponsorToChild_overwrites)
qed

lemma example_createSponsorship_next:
  "createSponsorship two_sponsorships \<lparr> gen_id = ''s3'', gen_now = 70 \<rparr> 2025 451 2000
     example_new_sponsor =
   (Inr (toAirtableSponsorshipRecord third_sponsorship),
    example_store\<lparr>sponsorships := [example_sponsorship, new_sponsorship, third_sponsorship]\<rparr>)"
proof -
  have "randomNum 451 = 551" by (simp add: randomNum_def)
  moreover have "decimal 2025 = ''2025''" "decimal 551 = ''551''" by code_simp+
  ultimately have c: "sponsorCode_of 2025 451 = ''BAN-2025-551''" by (simp add: sponsorCode_of_def)
  show ?thesis
    by (simp add: createSponsorship_def insert_sponsorship_def c example_store_def
      example_sponsorship_def example_new_sponsor_def new_sponsorship_def two_sponsorships_def
      third_sponsorship_def answer_def or_undefined_def falsy_def date_of_def
      AUTH_STATUS_ACTIVE_def SPONSORSHIP_STATUS_ACTIVE_def)
qed

theorem sponsor_codes_unique_witness:
  "codes_unique (foldl apply_sponsorship_op example_store
     [CreateSponsorship \<lparr> gen_id = ''s2'', gen_now = 60 \<rparr> 2025 450 1000 example_new_sponsor,
      CreateSponsorship \<lparr> gen_id = ''s3'', gen_now = 70 \<rparr> 2025 450 2000 example_new_sponsor,
      AssignSponsorToChild 1001 1000 ''s1'' example_reassignment,
      UpdateRequestTracking 100 ''s1'' 100 200]) \<and>
   100 \<le> randomNum 450 \<and> randomNum 450 \<le> 999 \<and>
   (\<exists>r row. createSponsorship example_store \<lparr> gen_id = ''s2'', gen_now = 60 \<rparr> 2025 450 1000
         example_new_sponsor = (Inr r, example_store\<lparr>sponsorships := [example_sponsorship, row]\<rparr>) \<and>
       sf_SponsorCode (asr_fields r) = ''BAN-2025-550'' \<and> sr_sponsor_code row = ''BAN-2025-550'') \<and>
   sf_SponsorCode (asr_fields (toAirtableSponsorshipRecord new_sponsorship)) = ''BAN-2025-550'' \<and>
   ''BAN-2025-550'' \<notin> set (map sr_sponsor_code (sponsorships example_store)) \<and>
   createSponsorship two_sponsorships \<lparr> gen_id = ''s3'', gen_now = 70 \<rparr> 2025 450 2000
     example_new_sponsor =
     (Inl (DatabaseError ''Failed to create sponsorship''), two_sponsorships) \<and>
   createSponsorship two_sponsorships \<lparr> gen_id = ''s3'', gen_now = 70 \<rparr> 2025 451 2000
     example_new_sponsor =
     (Inr (toAirtableSponsorshipRecord third_sponsorship),
      example_store\<lparr>sponsorships := [example_sponsorship, new_sponsorship, third_sponsorship]\<rparr>) \<and>
   sf_SponsorCode (asr_fields (toAirtableSponsorshipRecord new_sponsorship)) \<noteq>
     sf_SponsorCode (asr_fields (toAirtableSponsorshipRecord third_sponsorship)) \<and>
   (\<exists>r st'. assignSponsorToChild example_store 1001 1000 ''s1'' example_reassignment = (Inr r, st') \<and>
       sf_SponsorCode (asr_fields r) = ''BAN-2026-777'' \<and>
       map sr_sponsor_code (filter (\<lambda>v. sr_id v = ''s1'') (sponsorships st')) = [''BAN-2026-777''])"
proof -
  note t = sponsor_codes_unique [THEN conjunct2]
  note t3 = t [THEN conjunct2, THEN conjunct2]
  note t6 = t3 [THEN conjunct2, THEN conjunct2, THEN conjunct2]
  have u: "codes_unique example_store"
    by (simp add: codes_unique_def example_store_def)
  with t [THEN conjunct1, of example_store]
  have a: "codes_unique (foldl apply_sponsorship_op example_store
     [CreateSponsorship \<lparr> gen_id = ''s2'', gen_now = 60 \<rparr> 2025 450 1000 example_new_sponsor,
      CreateSponsorship \<lparr> gen_id = ''s3'', gen_now = 70 \<rparr> 2025 450 2000 example_new_sponsor,
      AssignSponsorToChild 1001 1000 ''s1'' example_reassignment,
      UpdateRequestTracking 100 ''s1'' 100 200])" by blast
  have "(450::nat) < 900" by simp
  with t [THEN conjunct2, THEN conjunct1, of 450]
  have b: "100 \<le> randomNum 450 \<and> randomNum 450 \<le> 999" by blast
  have s: "\<And>row. example_store\<lparr>sponsorships := sponsorships example_store @ [row]\<rparr> =
                example_store\<lparr>sponsorships := [example_sponsorship, row]\<rparr>"
    by (simp add: example_store_def)
  have "backend example_store = Healthy \<and>
     gen_id \<lparr> gen_id = ''s2'', gen_now = 60 \<rparr> \<notin> set (map sr_id (sponsorships example_store)) \<and>
     sponsorCode_of 2025 450 \<notin> set (map sr_sponsor_code (sponsorships example_store))"
    by (simp add: example_code example_store_def example_sponsorship_def)
  with t3 [THEN conjunct1, of example_store "\<lparr> gen_id = ''s2'', gen_now = 60 \<rparr>" 2025 450 1000 example_new_sponsor]
  have c: "\<exists>r row. createSponsorship example_store \<lparr> gen_id = ''s2'', gen_now = 60 \<rparr> 2025 450 1000
         example_new_sponsor = (Inr r, example_store\<lparr>sponsorships := [example_sponsorship, row]\<rparr>) \<and>
       sf_SponsorCode (asr_fields r) = ''BAN-2025-550'' \<and> sr_sponsor_code row = ''BAN-2025-550''"
    unfolding example_code s by blast
  from example_createSponsorship t3 [THEN conjunct2, THEN conjunct1,
      of example_store "\<lparr> gen_id = ''s2'', gen_now = 60 \<rparr>" 2025 450 1000 example_new_sponsor
        "toAirtableSponsorshipRecord new_sponsorship" two_sponsorships]
  have d: "sf_SponsorCode (asr_fields (toAirtableSponsorshipRecord new_sponsorship)) = ''BAN-2025-550'' \<and>
     ''BAN-2025-550'' \<notin> set (map sr_sponsor_code (sponsorships example_store))"
    unfolding example_code by blast
  have "backend two_sponsorships = Healthy \<and>
     sponsorCode_of 2025 450 \<in> set (map sr_sponsor_code (sponsorships two_sponsorships))"
    by (simp add: example_code two_sponsorships_def example_store_def new_sponsorship_def)
  with t3 [THEN conjunct2, THEN conjunct2, THEN conjunct1,
      of two_sponsorships 2025 450 "\<lparr> gen_id = ''s3'', gen_now = 70 \<rparr>" 2000 example_new_sponsor]
  have e: "createSponsorship two_sponsorships \<lparr> gen_id = ''s3'', gen_now = 70 \<rparr> 2025 450 2000
     example_new_sponsor =
     (Inl (DatabaseError ''Failed to create sponsorship''), two_sponsorships)" by blast
  from example_createSponsorship example_createSponsorship_next
    t6 [THEN conjunct1,
      of example_store "\<lparr> gen_id = ''s2'', gen_now = 60 \<rparr>" 2025 450 1000 example_new_sponsor
        "toAirtableSponsorshipRecord new_sponsorship" two_sponsorships
        "\<lparr> gen_id = ''s3'', gen_now = 70 \<rparr>" 2025 451 2000 example_new_sponsor
        "toAirtableSponsorshipRecord third_sponsorship"
        "example_store\<lparr>sponsorships := [example_sponsorship, new_sponsorship, third_sponsorship]\<rparr>"]
  have f: "sf_SponsorCode (asr_fields (toAirtableSponsorshipRecord new_sponsorship)) \<noteq>
     sf_SponsorCode (asr_fields (toAirtableSponsorshipRecord third_sponsorship))" by blast
  have r: "sd_sponsorCode example_reassignment = ''BAN-2026-777''"
    by (simp add: example_reassignment_def)
  have "backend example_store = Healthy \<and> codes_unique example_store \<and>
    filter (\<lambda>v. sr_id v = ''s1'') (sponsorships example_store) = [example_sponsorship] \<and>
    sd_sponsorCode example_reassignment \<notin> set (map sr_sponsor_code (sponsorships example_store))"
    using u by (simp add: example_store_def example_sponsorship_def example_reassignment_def)
  with t6 [THEN conjunct2, THEN conjunct2, THEN conjunct2,
      of example_store "''s1''" example_sponsorship example_reassignment 1001 1000]
  have g: "\<exists>r st'. assignSponsorToChild example_store 1001 1000 ''s1'' example_reassignment = (Inr r, st') \<and>
       sf_SponsorCode (asr_fields r) = ''BAN-2026-777'' \<and>
       map sr_sponsor_code (filter (\<lambda>v. sr_id v = ''s1'') (sponsorships st')) = [''BAN-2026-777'']"
    unfolding r by blast
  from a b c d e example_createSponsorship_next f g show ?thesis by blast
qed
section \<open>Error messages of the admin submit-update route\<close>

text \<open>
  The database layer never hands the store's error text to its caller: whatever error
  the failing store reports, the message of the \<open>DatabaseError\<close> is fixed.
\<close>

lemma database_layer_hides_store_error:
  "backend st = Failing e \<Longrightarrow>
   fst (publishUpdate st t now i) = Inl (DatabaseError ''Failed to publish update'') \<and>
   fst (submitUpdate st g now d) = Inl (DatabaseError ''Failed to submit update'') \<and>
   findUpdatesForChild st childId = Inl (DatabaseError ''Failed to find updates'')"
  by (simp add: publishUpdate_def update_updates_def single_of_def submitUpdate_def
      insert_update_def findUpdatesForChild_def reply_def refuse_def)

lemma example_admin_request_authorised:
  "verifyAdminToken (ADMIN_API_TOKEN example_env) (rq_headers example_admin_request)"
proof -
  have "verifyAdminToken (Some ''s3cret'') [''X-Admin-Token'' \<mapsto> ''s3cret'']" by code_simp
  then show ?thesis by (simp add: example_env_def example_admin_request_def)
qed

text \<open>
  Claim C6 says that the body of a response never contains the raw error text of the
  backend. The route does not keep to it: for an authenticated, valid submission whose
  record Airtable refuses with the text \<open>raw\<close>, the response has status 500 and the
  error message "Airtable API error: " followed by \<open>raw\<close>.
\<close>

theorem POST_echoes_store_error:
  "POST example_lib example_env (refusing_airtable raw) now example_admin_request =
     \<lparr> status = 500, retry_after_header = None,
       body = ErrorBody (Some (''Airtable API error: '' @ raw)) \<rparr>"
proof -
  note a = example_admin_request_authorised
  have f: "rq_rateLimitError example_admin_request = None"
    "rq_formData example_admin_request = Inr
         \<lparr> fd_adminPassword = None, fd_sponsorCode = Some ''BAN-2025-104'',
           fd_updateType = Some ''Progress Report'', fd_title = Some ''Term report'',
           fd_content = Some ''Doing well.'', fd_submittedBy = Some ''field'' \<rparr>"
    by (simp_all add: example_admin_request_def)
  show ?thesis
    unfolding POST_def f
    by (simp add: a example_lib_def accept_nonempty_def falsy_def refusing_airtable_def
        caught_def json_error_def or_default_def or_undefined_def Let_def)
       (simp add: example_env_def)
qed

end
